theory Spec2Isabelle
  imports Complex_Main
begin

section \<open>Python string and integer primitives used by keymap-util.py\<close>

text \<open>
  Strings are modelled as lists of 8-bit characters and the case conversions act on the
  ASCII letters only; every other character is left as it is.
\<close>

definition lower_char :: "char \<Rightarrow> char" where
  "lower_char c =
     (case map_of (zip ''ABCDEFGHIJKLMNOPQRSTUVWXYZ'' ''abcdefghijklmnopqrstuvwxyz'') c of
        Some l \<Rightarrow> l | None \<Rightarrow> c)"

definition upper_char :: "char \<Rightarrow> char" where
  "upper_char c =
     (case map_of (zip ''abcdefghijklmnopqrstuvwxyz'' ''ABCDEFGHIJKLMNOPQRSTUVWXYZ'') c of
        Some u \<Rightarrow> u | None \<Rightarrow> c)"

definition lower :: "string \<Rightarrow> string" where
  "lower s = map lower_char s"

definition upper :: "string \<Rightarrow> string" where
  "upper s = map upper_char s"

text \<open>\<open>s.startswith(p)\<close>\<close>

definition startswith :: "string \<Rightarrow> string \<Rightarrow> bool" where
  "startswith s p = (take (length p) s = p)"

text \<open>\<open>a in b\<close> on strings: \<open>a\<close> occurs in \<open>b\<close> as a contiguous run.\<close>

fun is_substring :: "string \<Rightarrow> string \<Rightarrow> bool" where
  "is_substring a [] = (a = [])"
| "is_substring a (c # cs) = (startswith (c # cs) a \<or> is_substring a cs)"

text \<open>The ASCII characters that \<open>str.strip()\<close> treats as white space.\<close>

definition is_space :: "char \<Rightarrow> bool" where
  "is_space c = (c \<in> set [CHR 0x09, CHR 0x0A, CHR 0x0B, CHR 0x0C, CHR 0x0D,
                            CHR 0x1C, CHR 0x1D, CHR 0x1E, CHR 0x1F, CHR 0x20])"

definition strip :: "string \<Rightarrow> string" where
  "strip s = rev (dropWhile is_space (rev (dropWhile is_space s)))"

text \<open>
  \<open>int()\<close> on an ASCII string skips the white space of C only: tab, line feed, vertical
  tab, form feed, carriage return and space.
\<close>

definition is_int_space :: "char \<Rightarrow> bool" where
  "is_int_space c = (c \<in> set [CHR 0x09, CHR 0x0A, CHR 0x0B, CHR 0x0C, CHR 0x0D, CHR 0x20])"

definition int_strip :: "string \<Rightarrow> string" where
  "int_strip s = rev (dropWhile is_int_space (rev (dropWhile is_int_space s)))"

text \<open>\<open>str(n)\<close> for an integer: decimal digits, a minus sign for a negative number.\<close>

definition digit_char :: "nat \<Rightarrow> char" where
  "digit_char d = ''0123456789'' ! d"

fun str_nat :: "nat \<Rightarrow> string" where
  "str_nat n = (if n < 10 then [digit_char n] else str_nat (n div 10) @ [digit_char (n mod 10)])"

declare str_nat.simps [simp del]

definition py_str :: "int \<Rightarrow> string" where
  "py_str i = (if i < 0 then CHR ''-'' # str_nat (nat (- i)) else str_nat (nat i))"

text \<open>
  \<open>int(s)\<close> for an ASCII string, base 10: surrounding white space is dropped, one sign
  is allowed, then at least one digit, with single underscores allowed between digits.
  \<open>None\<close> stands for the \<open>ValueError\<close> that \<open>int\<close> raises. The bound that recent
  Python versions put on the number of digits (4300 by default) is not modelled.
\<close>

definition digit_val :: "char \<Rightarrow> nat option" where
  "digit_val c = map_of (zip ''0123456789'' [0, 1, 2, 3, 4, 5, 6, 7, 8, 9]) c"

fun parse_dec :: "nat \<Rightarrow> string \<Rightarrow> nat option" where
  "parse_dec acc [] = Some acc"
| "parse_dec acc (c # cs) =
     (if c = CHR ''_'' then
        (case cs of
           [] \<Rightarrow> None
         | d # ds \<Rightarrow> (case digit_val d of None \<Rightarrow> None | Some v \<Rightarrow> parse_dec (10 * acc + v) ds))
      else (case digit_val c of None \<Rightarrow> None | Some v \<Rightarrow> parse_dec (10 * acc + v) cs))"

definition parse_nat :: "string \<Rightarrow> nat option" where
  "parse_nat s =
     (case s of
        [] \<Rightarrow> None
      | c # cs \<Rightarrow> (case digit_val c of None \<Rightarrow> None | Some v \<Rightarrow> parse_dec v cs))"

definition py_int :: "string \<Rightarrow> int option" where
  "py_int s =
     (case int_strip s of
        [] \<Rightarrow> None
      | c # cs \<Rightarrow>
          if c = CHR ''-'' then map_option (\<lambda>n. - int n) (parse_nat cs)
          else if c = CHR ''+'' then map_option int (parse_nat cs)
          else map_option int (parse_nat (c # cs)))"

section \<open>Key codes of the input layer\<close>

text \<open>
  The attributes \<open>ecodes.KEY_*\<close>, \<open>ecodes.EV_*\<close> of the evdev library are the numbers
  of the Linux input event interface.
\<close>

abbreviation (input) "EV_SYN \<equiv> (0::int)"
abbreviation (input) "EV_KEY \<equiv> (1::int)"

abbreviation (input) "KEY_ESC \<equiv> (1::int)"
abbreviation (input) "KEY_1 \<equiv> (2::int)"
abbreviation (input) "KEY_2 \<equiv> (3::int)"
abbreviation (input) "KEY_3 \<equiv> (4::int)"
abbreviation (input) "KEY_4 \<equiv> (5::int)"
abbreviation (input) "KEY_5 \<equiv> (6::int)"
abbreviation (input) "KEY_6 \<equiv> (7::int)"
abbreviation (input) "KEY_7 \<equiv> (8::int)"
abbreviation (input) "KEY_8 \<equiv> (9::int)"
abbreviation (input) "KEY_9 \<equiv> (10::int)"
abbreviation (input) "KEY_0 \<equiv> (11::int)"
abbreviation (input) "KEY_BACKSPACE \<equiv> (14::int)"
abbreviation (input) "KEY_TAB \<equiv> (15::int)"
abbreviation (input) "KEY_Q \<equiv> (16::int)"
abbreviation (input) "KEY_W \<equiv> (17::int)"
abbreviation (input) "KEY_E \<equiv> (18::int)"
abbreviation (input) "KEY_R \<equiv> (19::int)"
abbreviation (input) "KEY_T \<equiv> (20::int)"
abbreviation (input) "KEY_Y \<equiv> (21::int)"
abbreviation (input) "KEY_U \<equiv> (22::int)"
abbreviation (input) "KEY_I \<equiv> (23::int)"
abbreviation (input) "KEY_O \<equiv> (24::int)"
abbreviation (input) "KEY_P \<equiv> (25::int)"
abbreviation (input) "KEY_ENTER \<equiv> (28::int)"
abbreviation (input) "KEY_LEFTCTRL \<equiv> (29::int)"
abbreviation (input) "KEY_A \<equiv> (30::int)"
abbreviation (input) "KEY_S \<equiv> (31::int)"
abbreviation (input) "KEY_D \<equiv> (32::int)"
abbreviation (input) "KEY_F \<equiv> (33::int)"
abbreviation (input) "KEY_G \<equiv> (34::int)"
abbreviation (input) "KEY_H \<equiv> (35::int)"
abbreviation (input) "KEY_J \<equiv> (36::int)"
abbreviation (input) "KEY_K \<equiv> (37::int)"
abbreviation (input) "KEY_L \<equiv> (38::int)"
abbreviation (input) "KEY_LEFTSHIFT \<equiv> (42::int)"
abbreviation (input) "KEY_Z \<equiv> (44::int)"
abbreviation (input) "KEY_X \<equiv> (45::int)"
abbreviation (input) "KEY_C \<equiv> (46::int)"
abbreviation (input) "KEY_V \<equiv> (47::int)"
abbreviation (input) "KEY_B \<equiv> (48::int)"
abbreviation (input) "KEY_N \<equiv> (49::int)"
abbreviation (input) "KEY_M \<equiv> (50::int)"
abbreviation (input) "KEY_RIGHTSHIFT \<equiv> (54::int)"
abbreviation (input) "KEY_LEFTALT \<equiv> (56::int)"
abbreviation (input) "KEY_SPACE \<equiv> (57::int)"
abbreviation (input) "KEY_F1 \<equiv> (59::int)"
abbreviation (input) "KEY_F2 \<equiv> (60::int)"
abbreviation (input) "KEY_F3 \<equiv> (61::int)"
abbreviation (input) "KEY_F4 \<equiv> (62::int)"
abbreviation (input) "KEY_F5 \<equiv> (63::int)"
abbreviation (input) "KEY_F6 \<equiv> (64::int)"
abbreviation (input) "KEY_F7 \<equiv> (65::int)"
abbreviation (input) "KEY_F8 \<equiv> (66::int)"
abbreviation (input) "KEY_F9 \<equiv> (67::int)"
abbreviation (input) "KEY_F10 \<equiv> (68::int)"
abbreviation (input) "KEY_F11 \<equiv> (87::int)"
abbreviation (input) "KEY_F12 \<equiv> (88::int)"
abbreviation (input) "KEY_RIGHTCTRL \<equiv> (97::int)"
abbreviation (input) "KEY_RIGHTALT \<equiv> (100::int)"
abbreviation (input) "KEY_HOME \<equiv> (102::int)"
abbreviation (input) "KEY_UP \<equiv> (103::int)"
abbreviation (input) "KEY_PAGEUP \<equiv> (104::int)"
abbreviation (input) "KEY_LEFT \<equiv> (105::int)"
abbreviation (input) "KEY_RIGHT \<equiv> (106::int)"
abbreviation (input) "KEY_END \<equiv> (107::int)"
abbreviation (input) "KEY_DOWN \<equiv> (108::int)"
abbreviation (input) "KEY_PAGEDOWN \<equiv> (109::int)"
abbreviation (input) "KEY_INSERT \<equiv> (110::int)"
abbreviation (input) "KEY_DELETE \<equiv> (111::int)"
abbreviation (input) "KEY_LEFTMETA \<equiv> (125::int)"
abbreviation (input) "KEY_RIGHTMETA \<equiv> (126::int)"
abbreviation (input) "KEY_F13 \<equiv> (183::int)"
abbreviation (input) "KEY_F14 \<equiv> (184::int)"
abbreviation (input) "KEY_F15 \<equiv> (185::int)"
abbreviation (input) "KEY_F16 \<equiv> (186::int)"
abbreviation (input) "KEY_F17 \<equiv> (187::int)"
abbreviation (input) "KEY_F18 \<equiv> (188::int)"
abbreviation (input) "KEY_F19 \<equiv> (189::int)"
abbreviation (input) "KEY_F20 \<equiv> (190::int)"
abbreviation (input) "KEY_F21 \<equiv> (191::int)"
abbreviation (input) "KEY_F22 \<equiv> (192::int)"
abbreviation (input) "KEY_F23 \<equiv> (193::int)"
abbreviation (input) "KEY_F24 \<equiv> (194::int)"

section \<open>KeyMapper: the key identifier registry\<close>

text \<open>\<open>key_name_map\<close> of \<open>keycode_to_dotool_name\<close>: key code to dotool key name.\<close>

definition key_name_map :: "(int \<times> string) list" where
  "key_name_map =
    [(KEY_A, ''a''), (KEY_B, ''b''), (KEY_C, ''c''), (KEY_D, ''d''),
     (KEY_E, ''e''), (KEY_F, ''f''), (KEY_G, ''g''), (KEY_H, ''h''),
     (KEY_I, ''i''), (KEY_J, ''j''), (KEY_K, ''k''), (KEY_L, ''l''),
     (KEY_M, ''m''), (KEY_N, ''n''), (KEY_O, ''o''), (KEY_P, ''p''),
     (KEY_Q, ''q''), (KEY_R, ''r''), (KEY_S, ''s''), (KEY_T, ''t''),
     (KEY_U, ''u''), (KEY_V, ''v''), (KEY_W, ''w''), (KEY_X, ''x''),
     (KEY_Y, ''y''), (KEY_Z, ''z''),
     (KEY_1, ''1''), (KEY_2, ''2''), (KEY_3, ''3''), (KEY_4, ''4''),
     (KEY_5, ''5''), (KEY_6, ''6''), (KEY_7, ''7''), (KEY_8, ''8''),
     (KEY_9, ''9''), (KEY_0, ''0''),
     (KEY_SPACE, ''space''), (KEY_ENTER, ''enter''), (KEY_TAB, ''tab''),
     (KEY_BACKSPACE, ''backspace''), (KEY_ESC, ''escape''),
     (KEY_LEFTSHIFT, ''shift''), (KEY_RIGHTSHIFT, ''shift''),
     (KEY_LEFTCTRL, ''ctrl''), (KEY_RIGHTCTRL, ''ctrl''),
     (KEY_LEFTALT, ''alt''), (KEY_RIGHTALT, ''alt''),
     (KEY_LEFTMETA, ''super''), (KEY_RIGHTMETA, ''super''),
     (KEY_UP, ''up''), (KEY_DOWN, ''down''),
     (KEY_LEFT, ''left''), (KEY_RIGHT, ''right''),
     (KEY_HOME, ''home''), (KEY_END, ''end''),
     (KEY_PAGEUP, ''pageup''), (KEY_PAGEDOWN, ''pagedown''),
     (KEY_DELETE, ''delete''), (KEY_INSERT, ''insert''),
     (KEY_F1, ''f1''), (KEY_F2, ''f2''), (KEY_F3, ''f3''), (KEY_F4, ''f4''),
     (KEY_F5, ''f5''), (KEY_F6, ''f6''), (KEY_F7, ''f7''), (KEY_F8, ''f8''),
     (KEY_F9, ''f9''), (KEY_F10, ''f10''), (KEY_F11, ''f11''), (KEY_F12, ''f12''),
     (KEY_F13, ''f13''), (KEY_F14, ''f14''), (KEY_F15, ''f15''), (KEY_F16, ''f16''),
     (KEY_F17, ''f17''), (KEY_F18, ''f18''), (KEY_F19, ''f19''), (KEY_F20, ''f20''),
     (KEY_F21, ''f21''), (KEY_F22, ''f22''), (KEY_F23, ''f23''), (KEY_F24, ''f24'')]"

text \<open>\<open>keycode_to_dotool_name\<close>: the name of the table, else \<open>k:<code>\<close>.\<close>

definition keycode_to_dotool_name :: "int \<Rightarrow> string" where
  "keycode_to_dotool_name key_code =
     (case map_of key_name_map key_code of
        Some name \<Rightarrow> name
      | None \<Rightarrow> ''k:'' @ py_str key_code)"

text \<open>\<open>char_map\<close> and \<open>name_map\<close> of \<open>name_to_keycode\<close>.\<close>

definition char_map :: "(string \<times> int) list" where
  "char_map =
    [(''a'', KEY_A), (''b'', KEY_B), (''c'', KEY_C), (''d'', KEY_D),
     (''e'', KEY_E), (''f'', KEY_F), (''g'', KEY_G), (''h'', KEY_H),
     (''i'', KEY_I), (''j'', KEY_J), (''k'', KEY_K), (''l'', KEY_L),
     (''m'', KEY_M), (''n'', KEY_N), (''o'', KEY_O), (''p'', KEY_P),
     (''q'', KEY_Q), (''r'', KEY_R), (''s'', KEY_S), (''t'', KEY_T),
     (''u'', KEY_U), (''v'', KEY_V), (''w'', KEY_W), (''x'', KEY_X),
     (''y'', KEY_Y), (''z'', KEY_Z),
     (''1'', KEY_1), (''2'', KEY_2), (''3'', KEY_3), (''4'', KEY_4),
     (''5'', KEY_5), (''6'', KEY_6), (''7'', KEY_7), (''8'', KEY_8),
     (''9'', KEY_9), (''0'', KEY_0)]"

definition name_map :: "(string \<times> int) list" where
  "name_map =
    [(''space'', KEY_SPACE), (''enter'', KEY_ENTER), (''tab'', KEY_TAB),
     (''backspace'', KEY_BACKSPACE), (''escape'', KEY_ESC), (''esc'', KEY_ESC),
     (''shift'', KEY_LEFTSHIFT), (''ctrl'', KEY_LEFTCTRL), (''control'', KEY_LEFTCTRL),
     (''alt'', KEY_LEFTALT), (''super'', KEY_LEFTMETA), (''meta'', KEY_LEFTMETA),
     (''up'', KEY_UP), (''down'', KEY_DOWN), (''left'', KEY_LEFT), (''right'', KEY_RIGHT),
     (''home'', KEY_HOME), (''end'', KEY_END),
     (''pageup'', KEY_PAGEUP), (''pagedown'', KEY_PAGEDOWN),
     (''delete'', KEY_DELETE), (''insert'', KEY_INSERT),
     (''f1'', KEY_F1), (''f2'', KEY_F2), (''f3'', KEY_F3), (''f4'', KEY_F4),
     (''f5'', KEY_F5), (''f6'', KEY_F6), (''f7'', KEY_F7), (''f8'', KEY_F8),
     (''f9'', KEY_F9), (''f10'', KEY_F10), (''f11'', KEY_F11), (''f12'', KEY_F12),
     (''f13'', KEY_F13), (''f14'', KEY_F14), (''f15'', KEY_F15), (''f16'', KEY_F16),
     (''f17'', KEY_F17), (''f18'', KEY_F18), (''f19'', KEY_F19), (''f20'', KEY_F20),
     (''f21'', KEY_F21), (''f22'', KEY_F22), (''f23'', KEY_F23), (''f24'', KEY_F24)]"

text \<open>
  \<open>name_to_keycode\<close>. The dictionary \<open>ecodes.KEY\<close> of the evdev library (key code to
  name) is the parameter \<open>KEY\<close>, the list of its items in iteration order. An item
  whose value is a list of alias names never equals a string and is left out.
\<close>

definition name_to_keycode :: "(int \<times> string) list \<Rightarrow> string \<Rightarrow> int option" where
  "name_to_keycode KEY key_name =
     (let key_name_upper =
            (if startswith (upper key_name) ''KEY_'' then upper key_name
             else ''KEY_'' @ upper key_name)
      in case find (\<lambda>(code, name). name = key_name_upper) KEY of
           Some (code, name) \<Rightarrow> Some code
         | None \<Rightarrow>
             (case (if length key_name = 1 then map_of char_map (lower key_name) else None) of
                Some code \<Rightarrow> Some code
              | None \<Rightarrow> map_of name_map (lower key_name)))"

text \<open>\<open>normalize_config_key\<close>: the name first, the decimal number only when that fails.\<close>

definition normalize_config_key ::
  "(int \<times> string) list \<Rightarrow> string \<Rightarrow> int option \<times> string option" where
  "normalize_config_key KEY key =
     (case name_to_keycode KEY key of
        Some keycode \<Rightarrow> (Some keycode, Some (keycode_to_dotool_name keycode))
      | None \<Rightarrow>
          (case py_int key of
             Some keycode \<Rightarrow> (Some keycode, Some (keycode_to_dotool_name keycode))
           | None \<Rightarrow> (None, None)))"

text \<open>
  The items of \<open>ecodes.KEY\<close> for the key codes 0 to 111, the two meta keys and F13 to
  F24, as the Linux input event interface numbers them.
\<close>

definition ecodes_KEY :: "(int \<times> string) list" where
  "ecodes_KEY =
    [(0, ''KEY_RESERVED''), (1, ''KEY_ESC''), (2, ''KEY_1''), (3, ''KEY_2''),
     (4, ''KEY_3''), (5, ''KEY_4''), (6, ''KEY_5''), (7, ''KEY_6''), (8, ''KEY_7''),
     (9, ''KEY_8''), (10, ''KEY_9''), (11, ''KEY_0''), (12, ''KEY_MINUS''),
     (13, ''KEY_EQUAL''), (14, ''KEY_BACKSPACE''), (15, ''KEY_TAB''), (16, ''KEY_Q''),
     (17, ''KEY_W''), (18, ''KEY_E''), (19, ''KEY_R''), (20, ''KEY_T''), (21, ''KEY_Y''),
     (22, ''KEY_U''), (23, ''KEY_I''), (24, ''KEY_O''), (25, ''KEY_P''),
     (26, ''KEY_LEFTBRACE''), (27, ''KEY_RIGHTBRACE''), (28, ''KEY_ENTER''),
     (29, ''KEY_LEFTCTRL''), (30, ''KEY_A''), (31, ''KEY_S''), (32, ''KEY_D''),
     (33, ''KEY_F''), (34, ''KEY_G''), (35, ''KEY_H''), (36, ''KEY_J''), (37, ''KEY_K''),
     (38, ''KEY_L''), (39, ''KEY_SEMICOLON''), (40, ''KEY_APOSTROPHE''),
     (41, ''KEY_GRAVE''), (42, ''KEY_LEFTSHIFT''), (43, ''KEY_BACKSLASH''),
     (44, ''KEY_Z''), (45, ''KEY_X''), (46, ''KEY_C''), (47, ''KEY_V''), (48, ''KEY_B''),
     (49, ''KEY_N''), (50, ''KEY_M''), (51, ''KEY_COMMA''), (52, ''KEY_DOT''),
     (53, ''KEY_SLASH''), (54, ''KEY_RIGHTSHIFT''), (55, ''KEY_KPASTERISK''),
     (56, ''KEY_LEFTALT''), (57, ''KEY_SPACE''), (58, ''KEY_CAPSLOCK''),
     (59, ''KEY_F1''), (60, ''KEY_F2''), (61, ''KEY_F3''), (62, ''KEY_F4''),
     (63, ''KEY_F5''), (64, ''KEY_F6''), (65, ''KEY_F7''), (66, ''KEY_F8''),
     (67, ''KEY_F9''), (68, ''KEY_F10''), (69, ''KEY_NUMLOCK''), (70, ''KEY_SCROLLLOCK''),
     (71, ''KEY_KP7''), (72, ''KEY_KP8''), (73, ''KEY_KP9''), (74, ''KEY_KPMINUS''),
     (75, ''KEY_KP4''), (76, ''KEY_KP5''), (77, ''KEY_KP6''), (78, ''KEY_KPPLUS''),
     (79, ''KEY_KP1''), (80, ''KEY_KP2''), (81, ''KEY_KP3''), (82, ''KEY_KP0''),
     (83, ''KEY_KPDOT''), (85, ''KEY_ZENKAKUHANKAKU''), (86, ''KEY_102ND''),
     (87, ''KEY_F11''), (88, ''KEY_F12''), (89, ''KEY_RO''), (90, ''KEY_KATAKANA''),
     (91, ''KEY_HIRAGANA''), (92, ''KEY_HENKAN''), (93, ''KEY_KATAKANAHIRAGANA''),
     (94, ''KEY_MUHENKAN''), (95, ''KEY_KPJPCOMMA''), (96, ''KEY_KPENTER''),
     (97, ''KEY_RIGHTCTRL''), (98, ''KEY_KPSLASH''), (99, ''KEY_SYSRQ''),
     (100, ''KEY_RIGHTALT''), (101, ''KEY_LINEFEED''), (102, ''KEY_HOME''),
     (103, ''KEY_UP''), (104, ''KEY_PAGEUP''), (105, ''KEY_LEFT''), (106, ''KEY_RIGHT''),
     (107, ''KEY_END''), (108, ''KEY_DOWN''), (109, ''KEY_PAGEDOWN''),
     (110, ''KEY_INSERT''), (111, ''KEY_DELETE''),
     (125, ''KEY_LEFTMETA''), (126, ''KEY_RIGHTMETA''),
     (183, ''KEY_F13''), (184, ''KEY_F14''), (185, ''KEY_F15''), (186, ''KEY_F16''),
     (187, ''KEY_F17''), (188, ''KEY_F18''), (189, ''KEY_F19''), (190, ''KEY_F20''),
     (191, ''KEY_F21''), (192, ''KEY_F22''), (193, ''KEY_F23''), (194, ''KEY_F24'')]"

section \<open>KeyMapper: resolving a key code to a mapping\<close>

text \<open>
  The configuration as \<open>json.load\<close> returns it. A JSON object is a dictionary that
  keeps the order of the file; it is modelled as an association list, read with
  \<open>map_of\<close> and iterated in list order. An absent table is \<open>None\<close>
  (\<open>"command_mappings" in self.config\<close> is false). Mapped values are strings.
\<close>

type_synonym key_table = "(string \<times> string) list"

record config =
  window_command_mappings :: "(string \<times> key_table) list option"
  command_mappings :: "key_table option"
  window_mappings :: "(string \<times> key_table) list option"
  global_mappings :: "key_table option"

text \<open>
  What \<open>get_mapping\<close> returns besides \<open>None\<close>: the tuple \<open>("COMMAND", text)\<close>, a key
  code (an int, for uinput) or a key name (a str, for dotool).
\<close>

datatype mapped = Command string | KeyCode int | KeyName string

datatype error = ValueError

text \<open>\<open>lookup_keys\<close>: the decimal code, then the dotool name, its lower and upper case.\<close>

definition lookup_keys :: "int \<Rightarrow> string list" where
  "lookup_keys key_code =
     (let key_name = keycode_to_dotool_name key_code
      in py_str key_code # (if key_name \<noteq> [] then [key_name, lower key_name, upper key_name] else []))"

text \<open>
  The choice of \<open>window_key\<close>: the window name itself when it is a key of the table, else
  the first key equal to it up to case, else the first key that contains the window name
  or is contained in it, up to case.
\<close>

definition find_window_key :: "string \<Rightarrow> (string \<times> 'a) list \<Rightarrow> string option" where
  "find_window_key window maps =
     (if window \<in> set (map fst maps) then Some window
      else (case find (\<lambda>w. lower w = lower window) (map fst maps) of
              Some w \<Rightarrow> Some w
            | None \<Rightarrow>
                find (\<lambda>w. is_substring (lower w) (lower window) \<or> is_substring (lower window) (lower w))
                  (map fst maps)))"

text \<open>
  The table of the focused window: none when the window is unknown or empty
  (\<open>if window and ... in self.config\<close>), when the table is absent, when no window key is
  found or when the key found is the empty string (\<open>if window_key\<close>).
\<close>

definition window_table ::
  "(string \<times> key_table) list option \<Rightarrow> string option \<Rightarrow> key_table option" where
  "window_table maps window =
     (case window of
        None \<Rightarrow> None
      | Some w \<Rightarrow>
          if w = [] then None
          else (case maps of
                  None \<Rightarrow> None
                | Some ms \<Rightarrow>
                    (case find_window_key w ms of
                       None \<Rightarrow> None
                     | Some window_key \<Rightarrow> if window_key = [] then None else map_of ms window_key)))"

text \<open>
  The first loop over a table: a lookup key that is a key of the table counts only if it
  normalizes to the pressed key code.
\<close>

definition direct_lookup :: "(int \<times> string) list \<Rightarrow> int \<Rightarrow> key_table \<Rightarrow> string option" where
  "direct_lookup KEY key_code tbl =
     (case find (\<lambda>lookup_key. lookup_key \<in> set (map fst tbl) \<and>
                    fst (normalize_config_key KEY lookup_key) = Some key_code)
            (lookup_keys key_code) of
        Some lookup_key \<Rightarrow> map_of tbl lookup_key
      | None \<Rightarrow> None)"

text \<open>The second loop: the first key of the table that normalizes to the pressed code.\<close>

definition scan_lookup :: "(int \<times> string) list \<Rightarrow> int \<Rightarrow> key_table \<Rightarrow> string option" where
  "scan_lookup KEY key_code tbl =
     (case find (\<lambda>config_key. fst (normalize_config_key KEY config_key) = Some key_code)
            (map fst tbl) of
        Some config_key \<Rightarrow> map_of tbl config_key
      | None \<Rightarrow> None)"

definition lookup_mapping :: "(int \<times> string) list \<Rightarrow> int \<Rightarrow> key_table option \<Rightarrow> string option" where
  "lookup_mapping KEY key_code tbl =
     (case tbl of
        None \<Rightarrow> None
      | Some t \<Rightarrow>
          (case direct_lookup KEY key_code t of
             Some v \<Rightarrow> Some v
           | None \<Rightarrow> scan_lookup KEY key_code t))"

text \<open>\<open>is_command_mapping\<close> and \<open>get_command_from_mapping\<close> (on a string).\<close>

definition is_command_mapping :: "string \<Rightarrow> bool" where
  "is_command_mapping mapped_value =
     (startswith mapped_value ''cmd:'' \<or> startswith mapped_value ''CMD:'')"

definition get_command_from_mapping :: "string \<Rightarrow> string option" where
  "get_command_from_mapping mapped_value =
     (if startswith mapped_value ''cmd:'' then Some (strip (drop 4 mapped_value))
      else if startswith mapped_value ''CMD:'' then Some (strip (drop 4 mapped_value))
      else None)"

text \<open>
  The conversion of a mapped value for the output method: for dotool
  \<open>mapped_name if mapped_name else mapped\<close>, else
  \<open>mapped_keycode if mapped_keycode else int(mapped)\<close>, where \<open>int\<close> raises
  \<open>ValueError\<close> on a string that is no number.
\<close>

definition convert_key :: "(int \<times> string) list \<Rightarrow> string \<Rightarrow> string \<Rightarrow> error + mapped" where
  "convert_key KEY output_method mapped =
     (if output_method = ''dotool'' then
        (case snd (normalize_config_key KEY mapped) of
           Some mapped_name \<Rightarrow> Inr (KeyName (if mapped_name \<noteq> [] then mapped_name else mapped))
         | None \<Rightarrow> Inr (KeyName mapped))
      else
        (case (case fst (normalize_config_key KEY mapped) of
                 Some mapped_keycode \<Rightarrow> if mapped_keycode \<noteq> 0 then Some mapped_keycode else None
               | None \<Rightarrow> None) of
           Some mapped_keycode \<Rightarrow> Inr (KeyCode mapped_keycode)
         | None \<Rightarrow> (case py_int mapped of Some n \<Rightarrow> Inr (KeyCode n) | None \<Rightarrow> Inl ValueError)))"

text \<open>
  What a matched entry of a key table returns: the command behind a \<open>cmd:\<close> or
  \<open>CMD:\<close> prefix when that command is not empty, else the converted value.
\<close>

definition convert_mapped :: "(int \<times> string) list \<Rightarrow> string \<Rightarrow> string \<Rightarrow> error + mapped" where
  "convert_mapped KEY output_method mapped =
     (case (if is_command_mapping mapped then get_command_from_mapping mapped else None) of
        Some cmd \<Rightarrow>
          if cmd \<noteq> [] then Inr (Command cmd)
          else convert_key KEY output_method mapped
      | None \<Rightarrow> convert_key KEY output_method mapped)"

text \<open>
  \<open>get_mapping\<close> after its first statement \<open>window = self.get_focused_window()\<close>,
  whose result is the parameter \<open>window\<close>: the window command table, the global command
  table, the window key table, the global key table, else \<open>None\<close>.
\<close>

definition get_mapping ::
  "(int \<times> string) list \<Rightarrow> config \<Rightarrow> string \<Rightarrow> string option \<Rightarrow> int \<Rightarrow> error + mapped option" where
  "get_mapping KEY cfg output_method window key_code =
     (case lookup_mapping KEY key_code (window_table (window_command_mappings cfg) window) of
        Some mapped \<Rightarrow> Inr (Some (Command mapped))
      | None \<Rightarrow>
     (case lookup_mapping KEY key_code (command_mappings cfg) of
        Some mapped \<Rightarrow> Inr (Some (Command mapped))
      | None \<Rightarrow>
     (case lookup_mapping KEY key_code (window_table (window_mappings cfg) window) of
        Some mapped \<Rightarrow> map_sum id Some (convert_mapped KEY output_method mapped)
      | None \<Rightarrow>
     (case lookup_mapping KEY key_code (global_mappings cfg) of
        Some mapped \<Rightarrow> map_sum id Some (convert_mapped KEY output_method mapped)
      | None \<Rightarrow> Inr None))))"

section \<open>KeyMapper: state, window probe, output and event processing\<close>

text \<open>
  The fields of a \<open>KeyMapper\<close> that event processing reads or writes.
  \<open>dotool_process\<close> and \<open>uinput\<close> say whether the object is there (not \<open>None\<close>).
  The last three fields record the effects: the lines written to the standard input of
  the dotool child, the calls on the uinput device, and the command texts handed to
  \<open>execute_command\<close>.
\<close>

datatype uinput_call = Write int int int | Syn

record keymapper =
  config :: config
  output_method :: string
  current_window :: "string option"
  window_cache_time :: real
  window_cache_ttl :: real
  pressed_keys :: "string set"
  dotool_process :: bool
  uinput :: bool
  dotool_stdin :: "string list"
  uinput_calls :: "uinput_call list"
  executed :: "string list"

record event =
  ev_type :: int
  ev_code :: int
  ev_value :: int

text \<open>
  How the run of the window command ended: it exited with a status and a standard
  output, it ran over the 0.1 s limit (\<open>TimeoutExpired\<close>), the command was not found,
  or another exception was raised.
\<close>

datatype probe = Exited int string | TimedOut | NotFound | OtherError

text \<open>
  \<open>get_focused_window\<close>, given the clock \<open>time.time()\<close> and the end of the probe. How
  the command line is built and under which user it runs is not part of the model.
  Returns the window and the new state.
\<close>

definition get_focused_window ::
  "keymapper \<Rightarrow> real \<Rightarrow> probe \<Rightarrow> string option \<times> keymapper" where
  "get_focused_window s cache_time result =
     (if cache_time - window_cache_time s < window_cache_ttl s then (current_window s, s)
      else (case result of
              Exited returncode stdout \<Rightarrow>
                if returncode = 0 then
                  (let window = strip (strip stdout);
                       w = (if window \<noteq> [] then Some window else None)
                   in (w, s\<lparr>current_window := w, window_cache_time := cache_time\<rparr>))
                else (current_window s, s)
            | TimedOut \<Rightarrow> (current_window s, s)
            | NotFound \<Rightarrow> (current_window s, s)
            | OtherError \<Rightarrow> (current_window s, s)))"

text \<open>
  \<open>send_dotool_key\<close>; \<open>pipe_ok\<close> says whether the write and flush succeed. A
  \<open>BrokenPipeError\<close> or \<open>OSError\<close> drops the dotool process and nothing reaches it.
\<close>

definition send_dotool_key :: "keymapper \<Rightarrow> string \<Rightarrow> int \<Rightarrow> bool \<Rightarrow> keymapper" where
  "send_dotool_key s key_name v pipe_ok =
     (if \<not> dotool_process s \<or> key_name = [] then s
      else if v = 1 then
        (if key_name \<notin> pressed_keys s then
           (if pipe_ok then
              s\<lparr>pressed_keys := insert key_name (pressed_keys s),
                dotool_stdin := dotool_stdin s @ [''keydown '' @ key_name @ [CHR 0x0A]]\<rparr>
            else s\<lparr>dotool_process := False\<rparr>)
         else s)
      else if v = 0 then
        (if key_name \<in> pressed_keys s then
           (if pipe_ok then
              s\<lparr>pressed_keys := pressed_keys s - {key_name},
                dotool_stdin := dotool_stdin s @ [''keyup '' @ key_name @ [CHR 0x0A]]\<rparr>
            else s\<lparr>dotool_process := False\<rparr>)
         else s)
      else s)"

text \<open>
  \<open>execute_command\<close>: the command is handed to a detached shell, and every exception of
  the launch is caught.
\<close>

definition execute_command :: "keymapper \<Rightarrow> string \<Rightarrow> keymapper" where
  "execute_command s command = s\<lparr>executed := executed s @ [command]\<rparr>"

text \<open>
  \<open>process_event\<close>, with the window that \<open>get_focused_window\<close> reports inside
  \<open>get_mapping\<close> as the parameter \<open>window\<close>. An exception of \<open>get_mapping\<close> is not caught.
  With dotool as output method \<open>get_mapping\<close> returns a string, else an int: sending an
  int to dotool, which no run does, is written as sending its decimal text.
\<close>

definition process_event ::
  "(int \<times> string) list \<Rightarrow> keymapper \<Rightarrow> string option \<Rightarrow> bool \<Rightarrow> event \<Rightarrow> error + keymapper" where
  "process_event KEY s window pipe_ok ev =
     (if ev_type ev = EV_KEY then
        (case get_mapping KEY (config s) (output_method s) window (ev_code ev) of
           Inl e \<Rightarrow> Inl e
         | Inr (Some (Command cmd)) \<Rightarrow> Inr (if ev_value ev = 1 then execute_command s cmd else s)
         | Inr mapped \<Rightarrow>
             (let output_key =
                    (case mapped of
                       Some m \<Rightarrow> m
                     | None \<Rightarrow>
                         if output_method s = ''dotool'' then KeyName (keycode_to_dotool_name (ev_code ev))
                         else KeyCode (ev_code ev))
              in if output_method s = ''dotool'' \<and> dotool_process s \<and>
                    output_key \<noteq> KeyName [] \<and> output_key \<noteq> KeyCode 0 then
                   Inr (send_dotool_key s
                          (case output_key of KeyName n \<Rightarrow> n | KeyCode c \<Rightarrow> py_str c | Command c \<Rightarrow> c)
                          (ev_value ev) pipe_ok)
                 else (case output_key of
                         KeyCode c \<Rightarrow>
                           if uinput s then
                             Inr (s\<lparr>uinput_calls := uinput_calls s @ [Write EV_KEY c (ev_value ev), Syn]\<rparr>)
                           else Inr s
                       | _ \<Rightarrow> Inr s)))
      else
        (if uinput s then
           Inr (s\<lparr>uinput_calls := uinput_calls s @
                    (Write (ev_type ev) (ev_code ev) (ev_value ev) # (if ev_type ev = EV_SYN then [Syn] else []))\<rparr>)
         else Inr s))"

text \<open>
  \<open>process_event\<close> as the event loop calls it: the window is probed only for a key
  event, inside \<open>get_mapping\<close>.
\<close>

definition process_event_probing ::
  "(int \<times> string) list \<Rightarrow> keymapper \<Rightarrow> real \<Rightarrow> probe \<Rightarrow> bool \<Rightarrow> event \<Rightarrow> error + keymapper" where
  "process_event_probing KEY s cache_time result pipe_ok ev =
     (if ev_type ev = EV_KEY then
        (case get_focused_window s cache_time result of
           (window, s') \<Rightarrow> process_event KEY s' window pipe_ok ev)
      else process_event KEY s None pipe_ok ev)"

text \<open>
  The loop of \<open>run\<close> over the events read from the device, each with the window
  reported for it and the state of the pipe: it ends at the first uncaught exception.
\<close>

fun run :: "(int \<times> string) list \<Rightarrow> keymapper \<Rightarrow> (string option \<times> bool \<times> event) list \<Rightarrow> error + keymapper" where
  "run KEY s [] = Inr s"
| "run KEY s ((window, pipe_ok, ev) # evs) =
     (case process_event KEY s window pipe_ok ev of
        Inl e \<Rightarrow> Inl e
      | Inr s' \<Rightarrow> run KEY s' evs)"

section \<open>Notions used to state the properties\<close>

text \<open>
  \<open>ecodes.KEY\<close> is the inverse of the attributes \<open>ecodes.KEY_*\<close>: an item that carries
  one of the names listed in \<open>ecodes_KEY\<close> has the code listed there. The Linux input
  layer has no keys called ESCAPE, SHIFT, CTRL, ALT or SUPER (they are ESC, LEFTSHIFT,
  LEFTCTRL, LEFTALT and LEFTMETA).
\<close>

definition dotool_only_names :: "string list" where
  "dotool_only_names = [''KEY_ESCAPE'', ''KEY_SHIFT'', ''KEY_CTRL'', ''KEY_ALT'', ''KEY_SUPER'']"

definition ecodes_ok :: "(int \<times> string) list \<Rightarrow> bool" where
  "ecodes_ok KEY =
     list_all (\<lambda>(code, name).
         name \<notin> set dotool_only_names \<and>
         (case map_of (map prod.swap ecodes_KEY) name of None \<Rightarrow> True | Some c \<Rightarrow> code = c))
       KEY"

text \<open>The part of \<open>name_to_keycode\<close> after the search in \<open>ecodes.KEY\<close>.\<close>

definition name_fallback :: "string \<Rightarrow> int option" where
  "name_fallback key_name =
     (case (if length key_name = 1 then map_of char_map (lower key_name) else None) of
        Some code \<Rightarrow> Some code
      | None \<Rightarrow> map_of name_map (lower key_name))"

text \<open>A table has an entry for a key code: one of its keys normalizes to that code.\<close>

definition has_entry :: "(int \<times> string) list \<Rightarrow> int \<Rightarrow> key_table option \<Rightarrow> bool" where
  "has_entry KEY key_code tbl =
     (case tbl of
        None \<Rightarrow> False
      | Some t \<Rightarrow> list_ex (\<lambda>k. fst (normalize_config_key KEY k) = Some key_code) (map fst t))"

text \<open>A table with every key replaced by the key code it normalizes to.\<close>

definition table_by_code :: "(int \<times> string) list \<Rightarrow> key_table \<Rightarrow> (int option \<times> string) list" where
  "table_by_code KEY t = map (\<lambda>(k, v). (fst (normalize_config_key KEY k), v)) t"

text \<open>The characters that \<open>str\<close> writes for a natural number.\<close>

definition is_digit :: "char \<Rightarrow> bool" where
  "is_digit c = (\<exists>d < 10. c = digit_char d)"

text \<open>Writing the key \<open>old\<close> of every table of a configuration as \<open>new\<close>.\<close>

definition rekey :: "string \<Rightarrow> string \<Rightarrow> key_table \<Rightarrow> key_table" where
  "rekey old new tbl = map (\<lambda>(k, v). (if k = old then new else k, v)) tbl"

definition rekey_config :: "string \<Rightarrow> string \<Rightarrow> config \<Rightarrow> config" where
  "rekey_config old new cfg =
     cfg\<lparr>window_command_mappings :=
           map_option (map (\<lambda>(w, t). (w, rekey old new t))) (window_command_mappings cfg),
         command_mappings := map_option (rekey old new) (command_mappings cfg),
         window_mappings :=
           map_option (map (\<lambda>(w, t). (w, rekey old new t))) (window_mappings cfg),
         global_mappings := map_option (rekey old new) (global_mappings cfg)\<rparr>"

definition all_tables :: "config \<Rightarrow> key_table list" where
  "all_tables cfg =
     (case window_command_mappings cfg of None \<Rightarrow> [] | Some ws \<Rightarrow> map snd ws) @
     (case command_mappings cfg of None \<Rightarrow> [] | Some t \<Rightarrow> [t]) @
     (case window_mappings cfg of None \<Rightarrow> [] | Some ws \<Rightarrow> map snd ws) @
     (case global_mappings cfg of None \<Rightarrow> [] | Some t \<Rightarrow> [t])"

text \<open>No key other than \<open>key\<close> stands for the key code in any table.\<close>

definition only_key :: "(int \<times> string) list \<Rightarrow> int \<Rightarrow> string \<Rightarrow> config \<Rightarrow> bool" where
  "only_key KEY key_code key cfg =
     list_all (\<lambda>t. list_all (\<lambda>k. k = key \<or> fst (normalize_config_key KEY k) \<noteq> Some key_code)
                      (map fst t))
       (all_tables cfg)"

subsection \<open>A configuration and a mapper to evaluate on\<close>

definition example_config :: config where
  "example_config =
     \<lparr>window_command_mappings = Some [(''krita'', [(''a'', ''echo w'')])],
      command_mappings = Some [(''30'', ''cmd:xyz''), (''b'', ''notify-send hi'')],
      window_mappings = Some [(''krita'', [(''b'', ''x''), (''z'', ''y'')])],
      global_mappings =
        Some [(''1'', ''a''), (''2'', ''bogus''), (''c'', ''cmd: foo ''), (''z'', ''q''), (''58'', ''esc'')]\<rparr>"

definition example_mapper :: "string \<Rightarrow> keymapper" where
  "example_mapper method =
     \<lparr>config = example_config, output_method = method, current_window = None,
      window_cache_time = 0, window_cache_ttl = 1 / 10, pressed_keys = {},
      dotool_process = (method = ''dotool''), uinput = (method \<noteq> ''dotool''),
      dotool_stdin = [], uinput_calls = [], executed = []\<rparr>"

definition key_event :: "int \<Rightarrow> int \<Rightarrow> event" where
  "key_event key_code v = \<lparr>ev_type = EV_KEY, ev_code = key_code, ev_value = v\<rparr>"

section \<open>Properties\<close>

subsection \<open>Lookup in one table\<close>

text \<open>
  A table lookup fails exactly when no key of the table normalizes to the pressed code.
\<close>

lemma map_of_key_Some: "k \<in> set (map fst t) \<Longrightarrow> \<exists>v. map_of t k = Some v"
  by (induction t) auto

lemma find_None_all: "(find P xs = None) = (\<forall>x \<in> set xs. \<not> P x)"
  by (induction xs) auto

lemma find_Some_holds: "find P xs = Some x \<Longrightarrow> P x \<and> x \<in> set xs"
  by (induction xs) (auto split: if_splits)

lemma scan_lookup_None_iff:
  "scan_lookup KEY key_code t = None \<longleftrightarrow> \<not> has_entry KEY key_code (Some t)"
proof (cases "find (\<lambda>k. fst (normalize_config_key KEY k) = Some key_code) (map fst t)")
  case None
  then have "\<forall>k \<in> set (map fst t). fst (normalize_config_key KEY k) \<noteq> Some key_code"
    by (simp only: find_None_all)
  with None show ?thesis
    by (simp add: scan_lookup_def has_entry_def list_ex_iff)
next
  case (Some k)
  have k1: "k \<in> set (map fst t)"
    using find_Some_holds [OF Some] by (rule conjunct2)
  have k2: "fst (normalize_config_key KEY k) = Some key_code"
    using find_Some_holds [OF Some] by (rule conjunct1)
  from map_of_key_Some [OF k1] obtain v where v: "map_of t k = Some v" ..
  have "list_ex (\<lambda>k. fst (normalize_config_key KEY k) = Some key_code) (map fst t)"
    unfolding list_ex_iff using k1 k2 by (rule_tac x = k in bexI)
  then have "has_entry KEY key_code (Some t)"
    by (simp add: has_entry_def)
  moreover have "scan_lookup KEY key_code t = Some v"
    unfolding scan_lookup_def by (simp only: Some v option.case)
  ultimately show ?thesis by simp
qed

lemma direct_lookup_Some_entry:
  assumes "direct_lookup KEY key_code t = Some v"
  shows "has_entry KEY key_code (Some t)"
proof (cases "find (\<lambda>lookup_key. lookup_key \<in> set (map fst t) \<and>
            fst (normalize_config_key KEY lookup_key) = Some key_code) (lookup_keys key_code)")
  case None
  then have "direct_lookup KEY key_code t = None"
    unfolding direct_lookup_def by (simp only: option.case)
  with assms show ?thesis by simp
next
  case (Some lk)
  have "lk \<in> set (map fst t) \<and> fst (normalize_config_key KEY lk) = Some key_code"
    using find_Some_holds [OF Some] by (rule conjunct1)
  then have "list_ex (\<lambda>k. fst (normalize_config_key KEY k) = Some key_code) (map fst t)"
    unfolding list_ex_iff by (rule_tac x = lk in bexI) simp_all
  then show ?thesis by (simp add: has_entry_def)
qed

lemma lookup_mapping_None_iff:
  "lookup_mapping KEY key_code tbl = None \<longleftrightarrow> \<not> has_entry KEY key_code tbl"
proof (cases tbl)
  case None
  then show ?thesis by (simp add: lookup_mapping_def has_entry_def)
next
  case (Some t)
  show ?thesis
  proof (cases "direct_lookup KEY key_code t")
    case None
    with Some show ?thesis by (simp add: lookup_mapping_def scan_lookup_None_iff)
  next
    case (Some v)
    with \<open>tbl = Some t\<close> direct_lookup_Some_entry [OF Some] show ?thesis
      by (simp add: lookup_mapping_def)
  qed
qed

lemma process_event_command:
  assumes "get_mapping KEY (config s) (output_method s) window key_code = Inr (Some (Command cmd))"
  shows "process_event KEY s window pipe_ok (key_event key_code v) =
           Inr (if v = 1 then s\<lparr>executed := executed s @ [cmd]\<rparr> else s)"
  using assms by (simp add: process_event_def key_event_def execute_command_def)

subsection \<open>Order of the four tables\<close>

text \<open>
  Claim C1. \<open>get_mapping\<close> consults the window command table (none when the window is
  unknown), then the global command table, then the window key table, then the global
  key table, and the first table with an entry for the key decides: a command table
  gives the command, a key table the converted value. It returns \<open>None\<close>, the original
  key, exactly when no table has an entry for the key.
\<close>

theorem get_mapping_precedence:
  "(lookup_mapping KEY key_code (window_table (window_command_mappings cfg) window) = Some c \<longrightarrow>
      get_mapping KEY cfg om window key_code = Inr (Some (Command c)))
 \<and> (lookup_mapping KEY key_code (window_table (window_command_mappings cfg) window) = None \<and>
    lookup_mapping KEY key_code (command_mappings cfg) = Some c \<longrightarrow>
      get_mapping KEY cfg om window key_code = Inr (Some (Command c)))
 \<and> (lookup_mapping KEY key_code (window_table (window_command_mappings cfg) window) = None \<and>
    lookup_mapping KEY key_code (command_mappings cfg) = None \<and>
    lookup_mapping KEY key_code (window_table (window_mappings cfg) window) = Some v \<longrightarrow>
      get_mapping KEY cfg om window key_code = map_sum id Some (convert_mapped KEY om v))
 \<and> (lookup_mapping KEY key_code (window_table (window_command_mappings cfg) window) = None \<and>
    lookup_mapping KEY key_code (command_mappings cfg) = None \<and>
    lookup_mapping KEY key_code (window_table (window_mappings cfg) window) = None \<and>
    lookup_mapping KEY key_code (global_mappings cfg) = Some v \<longrightarrow>
      get_mapping KEY cfg om window key_code = map_sum id Some (convert_mapped KEY om v))
 \<and> (get_mapping KEY cfg om window key_code = Inr None \<longleftrightarrow>
      \<not> has_entry KEY key_code (window_table (window_command_mappings cfg) window) \<and>
      \<not> has_entry KEY key_code (command_mappings cfg) \<and>
      \<not> has_entry KEY key_code (window_table (window_mappings cfg) window) \<and>
      \<not> has_entry KEY key_code (global_mappings cfg))
 \<and> window_table (window_command_mappings cfg) None = None
 \<and> window_table (window_mappings cfg) None = None"
proof -
  have conv: "map_sum id Some (convert_mapped KEY om x) \<noteq> Inr None" for x
    by (cases "convert_mapped KEY om x") auto
  have c1: "lookup_mapping KEY key_code (window_table (window_command_mappings cfg) window) = Some c \<longrightarrow>
      get_mapping KEY cfg om window key_code = Inr (Some (Command c))"
    by (simp add: get_mapping_def)
  have c2: "lookup_mapping KEY key_code (window_table (window_command_mappings cfg) window) = None \<and>
    lookup_mapping KEY key_code (command_mappings cfg) = Some c \<longrightarrow>
      get_mapping KEY cfg om window key_code = Inr (Some (Command c))"
    by (simp add: get_mapping_def)
  have c3: "lookup_mapping KEY key_code (window_table (window_command_mappings cfg) window) = None \<and>
    lookup_mapping KEY key_code (command_mappings cfg) = None \<and>
    lookup_mapping KEY key_code (window_table (window_mappings cfg) window) = Some v \<longrightarrow>
      get_mapping KEY cfg om window key_code = map_sum id Some (convert_mapped KEY om v)"
    by (simp add: get_mapping_def)
  have c4: "lookup_mapping KEY key_code (window_table (window_command_mappings cfg) window) = None \<and>
    lookup_mapping KEY key_code (command_mappings cfg) = None \<and>
    lookup_mapping KEY key_code (window_table (window_mappings cfg) window) = None \<and>
    lookup_mapping KEY key_code (global_mappings cfg) = Some v \<longrightarrow>
      get_mapping KEY cfg om window key_code = map_sum id Some (convert_mapped KEY om v)"
    by (simp add: get_mapping_def)
  have "get_mapping KEY cfg om window key_code = Inr None \<longleftrightarrow>
      lookup_mapping KEY key_code (window_table (window_command_mappings cfg) window) = None \<and>
      lookup_mapping KEY key_code (command_mappings cfg) = None \<and>
      lookup_mapping KEY key_code (window_table (window_mappings cfg) window) = None \<and>
      lookup_mapping KEY key_code (global_mappings cfg) = None"
    by (simp add: get_mapping_def conv split: option.split)
  then have c5: "get_mapping KEY cfg om window key_code = Inr None \<longleftrightarrow>
      \<not> has_entry KEY key_code (window_table (window_command_mappings cfg) window) \<and>
      \<not> has_entry KEY key_code (command_mappings cfg) \<and>
      \<not> has_entry KEY key_code (window_table (window_mappings cfg) window) \<and>
      \<not> has_entry KEY key_code (global_mappings cfg)"
    by (simp only: lookup_mapping_None_iff)
  have c6: "window_table (window_command_mappings cfg) None = None"
    and c7: "window_table (window_mappings cfg) None = None"
    by (simp_all add: window_table_def)
  show ?thesis by (intro conjI c1 c2 c3 c4 c5 c6 c7)
qed

text \<open>
  The example configuration binds key 30 in the window command table and in the global
  command table, key 48 in the global command table and in the window key table, key 44
  in both key tables, and key 31 nowhere.
\<close>

theorem get_mapping_precedence_witness:
  "get_mapping ecodes_KEY example_config ''uinput'' (Some ''org.kde.krita'') 30 = Inr (Some (Command ''echo w''))
 \<and> get_mapping ecodes_KEY example_config ''uinput'' None 30 = Inr (Some (Command ''cmd:xyz''))
 \<and> get_mapping ecodes_KEY example_config ''uinput'' (Some ''org.kde.krita'') 48 = Inr (Some (Command ''notify-send hi''))
 \<and> get_mapping ecodes_KEY example_config ''uinput'' (Some ''org.kde.krita'') 44 = Inr (Some (KeyCode 21))
 \<and> get_mapping ecodes_KEY example_config ''uinput'' None 44 = Inr (Some (KeyCode 16))
 \<and> get_mapping ecodes_KEY example_config ''uinput'' (Some ''org.kde.krita'') 31 = Inr None"
proof -
  note P = get_mapping_precedence [where KEY = ecodes_KEY and cfg = example_config and om = "''uinput''"]
  let ?krita = "Some ''org.kde.krita''"
  have wc30: "lookup_mapping ecodes_KEY 30 (window_table (window_command_mappings example_config) ?krita) = Some ''echo w''"
    by code_simp
  have wc30n: "lookup_mapping ecodes_KEY 30 (window_table (window_command_mappings example_config) None) = None"
    by code_simp
  have gc30: "lookup_mapping ecodes_KEY 30 (command_mappings example_config) = Some ''cmd:xyz''"
    by code_simp
  have wc48: "lookup_mapping ecodes_KEY 48 (window_table (window_command_mappings example_config) ?krita) = None"
    by code_simp
  have gc48: "lookup_mapping ecodes_KEY 48 (command_mappings example_config) = Some ''notify-send hi''"
    by code_simp
  have wc44: "lookup_mapping ecodes_KEY 44 (window_table (window_command_mappings example_config) ?krita) = None"
    by code_simp
  have wc44n: "lookup_mapping ecodes_KEY 44 (window_table (window_command_mappings example_config) None) = None"
    by code_simp
  have gc44: "lookup_mapping ecodes_KEY 44 (command_mappings example_config) = None"
    by code_simp
  have wk44: "lookup_mapping ecodes_KEY 44 (window_table (window_mappings example_config) ?krita) = Some ''y''"
    by code_simp
  have wk44n: "lookup_mapping ecodes_KEY 44 (window_table (window_mappings example_config) None) = None"
    by code_simp
  have gk44: "lookup_mapping ecodes_KEY 44 (global_mappings example_config) = Some ''q''"
    by code_simp
  have cy: "map_sum id Some (convert_mapped ecodes_KEY ''uinput'' ''y'') = Inr (Some (KeyCode 21))"
    by code_simp
  have cq: "map_sum id Some (convert_mapped ecodes_KEY ''uinput'' ''q'') = Inr (Some (KeyCode 16))"
    by code_simp
  have no31: "\<not> has_entry ecodes_KEY 31 (window_table (window_command_mappings example_config) ?krita) \<and>
       \<not> has_entry ecodes_KEY 31 (command_mappings example_config) \<and>
       \<not> has_entry ecodes_KEY 31 (window_table (window_mappings example_config) ?krita) \<and>
       \<not> has_entry ecodes_KEY 31 (global_mappings example_config)"
    by code_simp
  have r1: "get_mapping ecodes_KEY example_config ''uinput'' ?krita 30 = Inr (Some (Command ''echo w''))"
    using P [where window = ?krita and key_code = 30 and c = "''echo w''"] wc30 by blast
  have r2: "get_mapping ecodes_KEY example_config ''uinput'' None 30 = Inr (Some (Command ''cmd:xyz''))"
    using P [where window = None and key_code = 30 and c = "''cmd:xyz''"] wc30n gc30 by blast
  have r3: "get_mapping ecodes_KEY example_config ''uinput'' ?krita 48 = Inr (Some (Command ''notify-send hi''))"
    using P [where window = ?krita and key_code = 48 and c = "''notify-send hi''"] wc48 gc48 by blast
  have r4: "get_mapping ecodes_KEY example_config ''uinput'' ?krita 44 = Inr (Some (KeyCode 21))"
    using P [where window = ?krita and key_code = 44 and v = "''y''"] wc44 gc44 wk44 cy by simp
  have r5: "get_mapping ecodes_KEY example_config ''uinput'' None 44 = Inr (Some (KeyCode 16))"
    using P [where window = None and key_code = 44 and v = "''q''"] wc44n gc44 wk44n gk44 cq by simp
  have r6: "get_mapping ecodes_KEY example_config ''uinput'' ?krita 31 = Inr None"
    using P [where window = ?krita and key_code = 31] no31 by blast
  show ?thesis by (intro conjI r1 r2 r3 r4 r5 r6)
qed

subsection \<open>Commands fire once per keystroke\<close>

text \<open>
  Claim C3. When a key resolves to a command at each of press, repeat, repeat and
  release, processing the four events runs the command of the press once and changes
  nothing else: no line reaches dotool, no call reaches uinput.
\<close>

theorem command_once_per_keystroke:
  assumes "get_mapping KEY (config s) (output_method s) w1 key_code = Inr (Some (Command c1))"
      and "get_mapping KEY (config s) (output_method s) w2 key_code = Inr (Some (Command c2))"
      and "get_mapping KEY (config s) (output_method s) w3 key_code = Inr (Some (Command c3))"
      and "get_mapping KEY (config s) (output_method s) w4 key_code = Inr (Some (Command c4))"
  shows "run KEY s [(w1, ok1, key_event key_code 1), (w2, ok2, key_event key_code 2),
                    (w3, ok3, key_event key_code 2), (w4, ok4, key_event key_code 0)]
           = Inr (s\<lparr>executed := executed s @ [c1]\<rparr>)"
  using assms by (simp add: process_event_command)

text \<open>
  Key 30 under the example configuration, the window changing after the second event.
\<close>

theorem command_once_per_keystroke_witness:
  "run ecodes_KEY (example_mapper ''uinput'')
     [(Some ''org.kde.krita'', True, key_event 30 1), (Some ''org.kde.krita'', True, key_event 30 2),
      (None, True, key_event 30 2), (None, True, key_event 30 0)]
   = Inr ((example_mapper ''uinput'')\<lparr>executed := [''echo w'']\<rparr>)"
proof -
  have cfg: "config (example_mapper ''uinput'') = example_config"
    and om: "output_method (example_mapper ''uinput'') = ''uinput''"
    and ex: "executed (example_mapper ''uinput'') = []"
    by (simp_all add: example_mapper_def)
  have k: "get_mapping ecodes_KEY example_config ''uinput'' (Some ''org.kde.krita'') 30 = Inr (Some (Command ''echo w''))"
    by code_simp
  have n: "get_mapping ecodes_KEY example_config ''uinput'' None 30 = Inr (Some (Command ''cmd:xyz''))"
    by code_simp
  from command_once_per_keystroke [of ecodes_KEY "example_mapper ''uinput''" "Some ''org.kde.krita''" 30
      "''echo w''" "Some ''org.kde.krita''" "''echo w''" None "''cmd:xyz''" None "''cmd:xyz''" True True True True]
    k n
  show ?thesis by (simp only: cfg om ex append_Nil)
qed

subsection \<open>The dotool transport\<close>

text \<open>
  Claim C4. With a running dotool process and a non-empty key name that is not held down,
  press, repeat and release write one \<open>keydown\<close> line and one \<open>keyup\<close> line and leave the
  set of pressed keys as it was. In any state a repeat writes nothing, a press of a name
  that is held down writes nothing, and a release of a name that is not held down writes
  nothing.
\<close>

theorem send_dotool_key_press_repeat_release:
  assumes "dotool_process s" and "key_name \<noteq> []" and "key_name \<notin> pressed_keys s"
  shows "send_dotool_key (send_dotool_key (send_dotool_key s key_name 1 True) key_name 2 True) key_name 0 True
           = s\<lparr>dotool_stdin := dotool_stdin s @ [''keydown '' @ key_name @ [CHR 0x0A], ''keyup '' @ key_name @ [CHR 0x0A]]\<rparr>
       \<and> send_dotool_key s' key_name 2 ok = s'
       \<and> (key_name \<in> pressed_keys s' \<longrightarrow> send_dotool_key s' key_name 1 ok = s')
       \<and> (key_name \<notin> pressed_keys s' \<longrightarrow> send_dotool_key s' key_name 0 ok = s')"
  using assms by (simp add: send_dotool_key_def)

theorem send_dotool_key_witness:
  "send_dotool_key (send_dotool_key (send_dotool_key (example_mapper ''dotool'') ''a'' 1 True) ''a'' 2 True) ''a'' 0 True
     = (example_mapper ''dotool'')\<lparr>dotool_stdin := [''keydown a'' @ [CHR 0x0A], ''keyup a'' @ [CHR 0x0A]]\<rparr>
   \<and> send_dotool_key ((example_mapper ''dotool'')\<lparr>pressed_keys := {''a''}\<rparr>) ''a'' 1 True
     = (example_mapper ''dotool'')\<lparr>pressed_keys := {''a''}\<rparr>
   \<and> send_dotool_key (example_mapper ''dotool'') ''a'' 0 True = example_mapper ''dotool''"
proof -
  have h1: "dotool_process (example_mapper ''dotool'')" by (simp add: example_mapper_def)
  have h2: "''a'' \<noteq> []" by simp
  have h3: "''a'' \<notin> pressed_keys (example_mapper ''dotool'')" by (simp add: example_mapper_def)
  have h4: "''a'' \<in> pressed_keys ((example_mapper ''dotool'')\<lparr>pressed_keys := {''a''}\<rparr>)" by simp
  have st: "dotool_stdin (example_mapper ''dotool'') = []" by (simp add: example_mapper_def)
  note T = send_dotool_key_press_repeat_release [OF h1 h2 h3]
  have a: "send_dotool_key (send_dotool_key (send_dotool_key (example_mapper ''dotool'') ''a'' 1 True) ''a'' 2 True) ''a'' 0 True
     = (example_mapper ''dotool'')\<lparr>dotool_stdin := [''keydown a'' @ [CHR 0x0A], ''keyup a'' @ [CHR 0x0A]]\<rparr>"
    using T [THEN conjunct1] by (simp add: st)
  have b: "send_dotool_key ((example_mapper ''dotool'')\<lparr>pressed_keys := {''a''}\<rparr>) ''a'' 1 True
     = (example_mapper ''dotool'')\<lparr>pressed_keys := {''a''}\<rparr>"
    using T [of "(example_mapper ''dotool'')\<lparr>pressed_keys := {''a''}\<rparr>" True] h4 by blast
  have c: "send_dotool_key (example_mapper ''dotool'') ''a'' 0 True = example_mapper ''dotool''"
    using T [of "example_mapper ''dotool''" True] h3 by blast
  show ?thesis by (intro conjI a b c)
qed

subsection \<open>Events that are no key events\<close>

text \<open>
  Claim C9 as stated fails for the dotool transport: a running dotool process receives
  nothing for an event of another class.
\<close>

theorem non_key_event_dotool_counterexample:
  "dotool_process (example_mapper ''dotool'') \<and> output_method (example_mapper ''dotool'') = ''dotool'' \<and>
   process_event ecodes_KEY (example_mapper ''dotool'') None True \<lparr>ev_type = 4, ev_code = 4, ev_value = 30\<rparr>
     = Inr (example_mapper ''dotool'')"
  by (simp add: process_event_def example_mapper_def)

text \<open>
  Claim C9, amended. An event that is no key event is written to the uinput device with
  its type, code and value, followed by a synchronisation when it is a synchronisation
  event itself; without a uinput device it is dropped.
\<close>

theorem non_key_event_uinput_only:
  assumes "ev_type ev \<noteq> EV_KEY"
  shows "(uinput s \<longrightarrow> process_event KEY s window pipe_ok ev =
            Inr (s\<lparr>uinput_calls := uinput_calls s @
                   (Write (ev_type ev) (ev_code ev) (ev_value ev) # (if ev_type ev = EV_SYN then [Syn] else []))\<rparr>))
       \<and> (\<not> uinput s \<longrightarrow> process_event KEY s window pipe_ok ev = Inr s)"
  using assms by (simp add: process_event_def)

theorem non_key_event_uinput_only_witness:
  "process_event ecodes_KEY (example_mapper ''uinput'') None True \<lparr>ev_type = 4, ev_code = 4, ev_value = 30\<rparr>
     = Inr ((example_mapper ''uinput'')\<lparr>uinput_calls := [Write 4 4 30]\<rparr>)
 \<and> process_event ecodes_KEY (example_mapper ''uinput'') None True \<lparr>ev_type = 0, ev_code = 0, ev_value = 0\<rparr>
     = Inr ((example_mapper ''uinput'')\<lparr>uinput_calls := [Write 0 0 0, Syn]\<rparr>)
 \<and> process_event ecodes_KEY (example_mapper ''dotool'') None True \<lparr>ev_type = 4, ev_code = 4, ev_value = 30\<rparr>
     = Inr (example_mapper ''dotool'')"
proof -
  have u: "uinput (example_mapper ''uinput'')" "\<not> uinput (example_mapper ''dotool'')"
    and uc: "uinput_calls (example_mapper ''uinput'') = []"
    by (simp_all add: example_mapper_def)
  have t4: "ev_type \<lparr>ev_type = 4, ev_code = 4, ev_value = 30\<rparr> \<noteq> 1"
    and t0: "ev_type \<lparr>ev_type = 0, ev_code = 0, ev_value = 0\<rparr> \<noteq> 1" by simp_all
  have a: "process_event ecodes_KEY (example_mapper ''uinput'') None True \<lparr>ev_type = 4, ev_code = 4, ev_value = 30\<rparr>
     = Inr ((example_mapper ''uinput'')\<lparr>uinput_calls := [Write 4 4 30]\<rparr>)"
    using non_key_event_uinput_only [OF t4, of "example_mapper ''uinput''" ecodes_KEY None True] u(1)
    by (simp add: uc)
  have b: "process_event ecodes_KEY (example_mapper ''uinput'') None True \<lparr>ev_type = 0, ev_code = 0, ev_value = 0\<rparr>
     = Inr ((example_mapper ''uinput'')\<lparr>uinput_calls := [Write 0 0 0, Syn]\<rparr>)"
    using non_key_event_uinput_only [OF t0, of "example_mapper ''uinput''" ecodes_KEY None True] u(1)
    by (simp add: uc)
  have c: "process_event ecodes_KEY (example_mapper ''dotool'') None True \<lparr>ev_type = 4, ev_code = 4, ev_value = 30\<rparr>
     = Inr (example_mapper ''dotool'')"
    using non_key_event_uinput_only [OF t4, of "example_mapper ''dotool''" ecodes_KEY None True] u(2)
    by blast
  show ?thesis by (intro conjI a b c)
qed

subsection \<open>A failed window probe\<close>

text \<open>
  Claim C5 as stated fails: after one successful probe that reported \<open>krita\<close>, a probe
  that times out or exits with status 1 still reports \<open>krita\<close>, and the window command
  table of \<open>krita\<close> decides key 30, not the global one.
\<close>

theorem failed_probe_counterexample:
  "(case get_focused_window (example_mapper ''uinput'') 1 (Exited 0 (''krita'' @ [CHR 0x0A])) of
      (w1, s1) \<Rightarrow>
        w1 = Some ''krita'' \<and>
        fst (get_focused_window s1 2 TimedOut) = Some ''krita'' \<and>
        fst (get_focused_window s1 2 (Exited 1 [])) = Some ''krita'')
   \<and> get_mapping ecodes_KEY example_config ''uinput'' (Some ''krita'') 30 = Inr (Some (Command ''echo w''))
   \<and> get_mapping ecodes_KEY example_config ''uinput'' None 30 = Inr (Some (Command ''cmd:xyz''))"
proof -
  have a: "(case get_focused_window (example_mapper ''uinput'') 1 (Exited 0 (''krita'' @ [CHR 0x0A])) of
      (w1, s1) \<Rightarrow>
        w1 = Some ''krita'' \<and>
        fst (get_focused_window s1 2 TimedOut) = Some ''krita'' \<and>
        fst (get_focused_window s1 2 (Exited 1 [])) = Some ''krita'')"
    by (simp add: get_focused_window_def example_mapper_def strip_def is_space_def Let_def)
  have b: "get_mapping ecodes_KEY example_config ''uinput'' (Some ''krita'') 30 = Inr (Some (Command ''echo w''))"
    by code_simp
  have c: "get_mapping ecodes_KEY example_config ''uinput'' None 30 = Inr (Some (Command ''cmd:xyz''))"
    by code_simp
  show ?thesis by (intro conjI a b c)
qed

text \<open>
  Claim C5, amended. When the probe times out or exits with a non-zero status, the window
  reported is the one cached from the last successful probe (none if there was none),
  and the cache is left as it was.
\<close>

theorem get_focused_window_failed_probe:
  assumes "result = TimedOut \<or> (\<exists>rc out. result = Exited rc out \<and> rc \<noteq> 0)"
  shows "get_focused_window s cache_time result = (current_window s, s)"
  using assms by (auto simp: get_focused_window_def)

theorem get_focused_window_failed_probe_witness:
  "get_focused_window ((example_mapper ''uinput'')\<lparr>current_window := Some ''krita''\<rparr>) 2 TimedOut
     = (Some ''krita'', (example_mapper ''uinput'')\<lparr>current_window := Some ''krita''\<rparr>)
 \<and> get_focused_window (example_mapper ''uinput'') 2 (Exited 1 ''krita'')
     = (None, example_mapper ''uinput'')"
proof -
  have h1: "TimedOut = TimedOut \<or> (\<exists>rc out. TimedOut = Exited rc out \<and> rc \<noteq> 0)" by simp
  have h2: "Exited 1 ''krita'' = TimedOut \<or> (\<exists>rc out. Exited 1 ''krita'' = Exited rc out \<and> rc \<noteq> 0)" by simp
  have a: "get_focused_window ((example_mapper ''uinput'')\<lparr>current_window := Some ''krita''\<rparr>) 2 TimedOut
     = (Some ''krita'', (example_mapper ''uinput'')\<lparr>current_window := Some ''krita''\<rparr>)"
    using get_focused_window_failed_probe [OF h1] by simp
  have b: "get_focused_window (example_mapper ''uinput'') 2 (Exited 1 ''krita'') = (None, example_mapper ''uinput'')"
    using get_focused_window_failed_probe [OF h2, of "example_mapper ''uinput''" 2]
    by (simp add: example_mapper_def)
  show ?thesis by (intro conjI a b)
qed

subsection \<open>Values of the command tables\<close>

text \<open>
  Claim C10. A value found in the window command table or in the global command table is
  the command text as it stands: \<open>get_mapping\<close> returns it unchanged and a press hands it
  unchanged to \<open>execute_command\<close>. The \<open>cmd:\<close> prefix is looked for in values of the key
  tables only.
\<close>

theorem command_table_verbatim:
  assumes "lookup_mapping KEY key_code (window_table (window_command_mappings (config s)) window) = Some v
         \<or> (lookup_mapping KEY key_code (window_table (window_command_mappings (config s)) window) = None \<and>
            lookup_mapping KEY key_code (command_mappings (config s)) = Some v)"
  shows "get_mapping KEY (config s) (output_method s) window key_code = Inr (Some (Command v))
       \<and> process_event KEY s window pipe_ok (key_event key_code 1) = Inr (s\<lparr>executed := executed s @ [v]\<rparr>)"
proof -
  from assms have g: "get_mapping KEY (config s) (output_method s) window key_code = Inr (Some (Command v))"
    by (auto simp: get_mapping_def)
  from process_event_command [OF g, of pipe_ok 1] g show ?thesis by simp
qed

text \<open>
  The global command table of the example binds key 30 to the text \<open>cmd:xyz\<close>, which is
  run as it is; the same text in a key table means the command \<open>xyz\<close>.
\<close>

theorem command_table_verbatim_witness:
  "process_event ecodes_KEY (example_mapper ''uinput'') None True (key_event 30 1)
     = Inr ((example_mapper ''uinput'')\<lparr>executed := [''cmd:xyz'']\<rparr>)
 \<and> process_event ecodes_KEY (example_mapper ''uinput'') (Some ''krita'') True (key_event 30 1)
     = Inr ((example_mapper ''uinput'')\<lparr>executed := [''echo w'']\<rparr>)
 \<and> convert_mapped ecodes_KEY ''uinput'' ''cmd:xyz'' = Inr (Command ''xyz'')"
proof -
  have cfg: "config (example_mapper ''uinput'') = example_config"
    and ex: "executed (example_mapper ''uinput'') = []"
    by (simp_all add: example_mapper_def)
  have wn: "lookup_mapping ecodes_KEY 30 (window_table (window_command_mappings example_config) None) = None"
    by code_simp
  have gc: "lookup_mapping ecodes_KEY 30 (command_mappings example_config) = Some ''cmd:xyz''"
    by code_simp
  have wk: "lookup_mapping ecodes_KEY 30 (window_table (window_command_mappings example_config) (Some ''krita'')) = Some ''echo w''"
    by code_simp
  have a: "process_event ecodes_KEY (example_mapper ''uinput'') None True (key_event 30 1)
     = Inr ((example_mapper ''uinput'')\<lparr>executed := [''cmd:xyz'']\<rparr>)"
    using command_table_verbatim [of ecodes_KEY 30 "example_mapper ''uinput''" None "''cmd:xyz''" True] wn gc
    by (simp add: cfg ex)
  have b: "process_event ecodes_KEY (example_mapper ''uinput'') (Some ''krita'') True (key_event 30 1)
     = Inr ((example_mapper ''uinput'')\<lparr>executed := [''echo w'']\<rparr>)"
    using command_table_verbatim [of ecodes_KEY 30 "example_mapper ''uinput''" "Some ''krita''" "''echo w''" True] wk
    by (simp add: cfg ex)
  have c: "convert_mapped ecodes_KEY ''uinput'' ''cmd:xyz'' = Inr (Command ''xyz'')"
    by code_simp
  show ?thesis by (intro conjI a b c)
qed

subsection \<open>A remap target that cannot be normalized\<close>






subsection \<open>Normalizing a configured key\<close>

text \<open>
  A name that the fallback tables resolve keeps its code under every table \<open>KEY\<close> that
  agrees with the listed key codes. Deleting from a table a key that does not normalize
  to the pressed code changes no lookup.
\<close>

lemma name_to_keycode_alt:
  "name_to_keycode KEY n =
     (case find (\<lambda>(code, name). name = (if startswith (upper n) ''KEY_'' then upper n else ''KEY_'' @ upper n)) KEY of
        Some (code, name) \<Rightarrow> Some code
      | None \<Rightarrow> name_fallback n)"
  by (simp only: name_to_keycode_def name_fallback_def Let_def)

lemma ecodes_ok_entry:
  assumes "ecodes_ok KEY" and "(code, name) \<in> set KEY"
  shows "name \<notin> set dotool_only_names"
    and "map_of (map prod.swap ecodes_KEY) name = Some c \<Longrightarrow> code = c"
  using assms by (auto simp: ecodes_ok_def list_all_iff)

lemma name_to_keycode_consistent:
  assumes ok: "ecodes_ok KEY"
      and pre: "\<not> startswith (upper n) ''KEY_''"
      and fb: "name_fallback n = Some c"
      and tab: "map_of (map prod.swap ecodes_KEY) (''KEY_'' @ upper n) = Some c
              \<or> ''KEY_'' @ upper n \<in> set dotool_only_names"
  shows "name_to_keycode KEY n = Some c"
proof (cases "find (\<lambda>(code, name). name = ''KEY_'' @ upper n) KEY")
  case None
  show ?thesis
    unfolding name_to_keycode_alt using pre by (simp only: if_False None option.case fb)
next
  case (Some e)
  obtain code name where e: "e = (code, name)" by (cases e)
  have "(case e of (code, name) \<Rightarrow> name = ''KEY_'' @ upper n) \<and> e \<in> set KEY"
    using find_Some_holds [OF Some] .
  then have nm: "name = ''KEY_'' @ upper n" and mem: "(code, name) \<in> set KEY"
    unfolding e by auto
  from ecodes_ok_entry(1) [OF ok mem] tab nm
  have "map_of (map prod.swap ecodes_KEY) name = Some c" by blast
  from ecodes_ok_entry(2) [OF ok mem this] have "code = c" .
  then show ?thesis
    unfolding name_to_keycode_alt using pre by (simp only: if_False Some e option.case prod.case)
qed

lemma ecodes_ok_ecodes_KEY: "ecodes_ok ecodes_KEY"
  by code_simp

lemma map_of_filter_other:
  "lk \<noteq> key \<Longrightarrow> map_of (filter (\<lambda>(k, v). k \<noteq> key) t) lk = map_of t lk"
  by (induction t) auto

lemma map_fst_filter_key:
  "map fst (filter (\<lambda>(k, v). k \<noteq> key) t) = filter (\<lambda>k. k \<noteq> key) (map fst t)"
  by (induction t) auto

lemma find_filter_implied:
  "(\<And>x. P x \<Longrightarrow> R x) \<Longrightarrow> find P (filter R xs) = find P xs"
  by (induction xs) auto

lemma find_cong_set:
  "(\<And>x. x \<in> set xs \<Longrightarrow> P x = Q x) \<Longrightarrow> find P xs = find Q xs"
  by (induction xs) auto

lemma direct_lookup_drop_key:
  assumes "fst (normalize_config_key KEY key) \<noteq> Some key_code"
  shows "direct_lookup KEY key_code (filter (\<lambda>(k, v). k \<noteq> key) t) = direct_lookup KEY key_code t"
proof -
  let ?P = "\<lambda>lookup_key. lookup_key \<in> set (map fst t) \<and>
              fst (normalize_config_key KEY lookup_key) = Some key_code"
  let ?P' = "\<lambda>lookup_key. lookup_key \<in> set (map fst (filter (\<lambda>(k, v). k \<noteq> key) t)) \<and>
              fst (normalize_config_key KEY lookup_key) = Some key_code"
  have "?P' lk = ?P lk" for lk
    using assms by (auto simp: map_fst_filter_key)
  then have f: "find ?P' (lookup_keys key_code) = find ?P (lookup_keys key_code)"
    by (intro find_cong_set)
  show ?thesis
  proof (cases "find ?P (lookup_keys key_code)")
    case None
    then show ?thesis unfolding direct_lookup_def f by (simp only: option.case)
  next
    case (Some lk)
    have "?P lk" using find_Some_holds [OF Some] by (rule conjunct1)
    with assms have "lk \<noteq> key" by auto
    then have "map_of (filter (\<lambda>(k, v). k \<noteq> key) t) lk = map_of t lk"
      by (rule map_of_filter_other)
    then show ?thesis unfolding direct_lookup_def f by (simp only: Some option.case)
  qed
qed

lemma scan_lookup_drop_key:
  assumes "fst (normalize_config_key KEY key) \<noteq> Some key_code"
  shows "scan_lookup KEY key_code (filter (\<lambda>(k, v). k \<noteq> key) t) = scan_lookup KEY key_code t"
proof -
  let ?Q = "\<lambda>config_key. fst (normalize_config_key KEY config_key) = Some key_code"
  have "?Q x \<Longrightarrow> x \<noteq> key" for x using assms by auto
  then have f: "find ?Q (filter (\<lambda>k. k \<noteq> key) (map fst t)) = find ?Q (map fst t)"
    by (rule find_filter_implied)
  show ?thesis
  proof (cases "find ?Q (map fst t)")
    case None
    then show ?thesis unfolding scan_lookup_def map_fst_filter_key f by (simp only: option.case)
  next
    case (Some k)
    have "?Q k" using find_Some_holds [OF Some] by (rule conjunct1)
    with assms have "k \<noteq> key" by auto
    then have "map_of (filter (\<lambda>(k, v). k \<noteq> key) t) k = map_of t k"
      by (rule map_of_filter_other)
    then show ?thesis unfolding scan_lookup_def map_fst_filter_key f by (simp only: Some option.case)
  qed
qed

lemma lookup_mapping_drop_key:
  assumes "fst (normalize_config_key KEY key) \<noteq> Some key_code"
  shows "lookup_mapping KEY key_code (Some (filter (\<lambda>(k, v). k \<noteq> key) t)) =
         lookup_mapping KEY key_code (Some t)"
  unfolding lookup_mapping_def option.case
    direct_lookup_drop_key [OF assms] scan_lookup_drop_key [OF assms] ..

text \<open>
  Claim C2. \<open>normalize_config_key\<close> takes the code of the name when the identifier
  resolves as a name, and the decimal number only when it does not; so \<open>1\<close> is the key
  KEY_1 (code 2), although \<open>int\<close> reads it as 1. An identifier that is neither a name
  nor a number gives \<open>(None, None)\<close>, and an entry under such a key is never found:
  deleting it changes no lookup of any key code in any table.
\<close>

theorem normalize_name_first:
  "(name_to_keycode KEY key = Some c \<longrightarrow>
      normalize_config_key KEY key = (Some c, Some (keycode_to_dotool_name c)))
 \<and> (name_to_keycode KEY key = None \<longrightarrow> fst (normalize_config_key KEY key) = py_int key)
 \<and> (ecodes_ok KEY \<longrightarrow>
      normalize_config_key KEY ''1'' = (Some KEY_1, Some ''1'') \<and> py_int ''1'' = Some 1)
 \<and> (name_to_keycode KEY key = None \<and> py_int key = None \<longrightarrow>
      normalize_config_key KEY key = (None, None) \<and>
      (\<forall>key_code tbl.
         lookup_mapping KEY key_code (Some tbl) =
         lookup_mapping KEY key_code (Some (filter (\<lambda>(k, v). k \<noteq> key) tbl))))"
proof -
  have a: "name_to_keycode KEY key = Some c \<longrightarrow>
      normalize_config_key KEY key = (Some c, Some (keycode_to_dotool_name c))"
    by (simp add: normalize_config_key_def)
  have b: "name_to_keycode KEY key = None \<longrightarrow> fst (normalize_config_key KEY key) = py_int key"
    by (simp add: normalize_config_key_def split: option.split)
  have c: "ecodes_ok KEY \<longrightarrow>
      normalize_config_key KEY ''1'' = (Some KEY_1, Some ''1'') \<and> py_int ''1'' = Some 1"
  proof
    assume ok: "ecodes_ok KEY"
    have p1: "\<not> startswith (upper ''1'') ''KEY_''" by code_simp
    have p2: "name_fallback ''1'' = Some 2" by code_simp
    have p3: "map_of (map prod.swap ecodes_KEY) (''KEY_'' @ upper ''1'') = Some 2
              \<or> ''KEY_'' @ upper ''1'' \<in> set dotool_only_names" by code_simp
    have n: "name_to_keycode KEY ''1'' = Some 2"
      using name_to_keycode_consistent [OF ok p1 p2 p3] .
    have d: "keycode_to_dotool_name 2 = ''1''" by code_simp
    have i: "py_int ''1'' = Some 1" by code_simp
    show "normalize_config_key KEY ''1'' = (Some KEY_1, Some ''1'') \<and> py_int ''1'' = Some 1"
      by (simp add: normalize_config_key_def n d i)
  qed
  have d: "name_to_keycode KEY key = None \<and> py_int key = None \<longrightarrow>
      normalize_config_key KEY key = (None, None) \<and>
      (\<forall>key_code tbl.
         lookup_mapping KEY key_code (Some tbl) =
         lookup_mapping KEY key_code (Some (filter (\<lambda>(k, v). k \<noteq> key) tbl)))"
  proof
    assume h: "name_to_keycode KEY key = None \<and> py_int key = None"
    then have n: "normalize_config_key KEY key = (None, None)"
      by (simp add: normalize_config_key_def)
    then have "fst (normalize_config_key KEY key) \<noteq> Some key_code" for key_code by simp
    from lookup_mapping_drop_key [OF this] n
    show "normalize_config_key KEY key = (None, None) \<and>
      (\<forall>key_code tbl.
         lookup_mapping KEY key_code (Some tbl) =
         lookup_mapping KEY key_code (Some (filter (\<lambda>(k, v). k \<noteq> key) tbl)))"
      by simp
  qed
  show ?thesis by (intro conjI a b c d)
qed

theorem normalize_name_first_witness:
  "normalize_config_key ecodes_KEY ''1'' = (Some 2, Some ''1'')
 \<and> py_int ''1'' = Some 1
 \<and> normalize_config_key ecodes_KEY ''300'' = (Some 300, Some ''k:300'')
 \<and> normalize_config_key ecodes_KEY ''bogus'' = (None, None)
 \<and> lookup_mapping ecodes_KEY 30 (Some [(''bogus'', ''x''), (''a'', ''b'')]) =
   lookup_mapping ecodes_KEY 30 (Some [(''a'', ''b'')])"
proof -
  note T = normalize_name_first [where KEY = ecodes_KEY]
  have n1: "name_to_keycode ecodes_KEY ''1'' = Some 2" by code_simp
  have n300: "name_to_keycode ecodes_KEY ''300'' = None" by code_simp
  have i300: "py_int ''300'' = Some 300" by code_simp
  have nb: "name_to_keycode ecodes_KEY ''bogus'' = None \<and> py_int ''bogus'' = None" by code_simp
  have d: "keycode_to_dotool_name 2 = ''1''" "keycode_to_dotool_name 300 = ''k:300''" by code_simp+
  have a: "normalize_config_key ecodes_KEY ''1'' = (Some 2, Some ''1'')"
    using T [where key = "''1''" and c = 2, THEN conjunct1] n1 d by simp
  have b: "py_int ''1'' = Some 1"
    using T [where key = "''1''", THEN conjunct2, THEN conjunct2, THEN conjunct1] ecodes_ok_ecodes_KEY
    by blast
  have c0: "fst (normalize_config_key ecodes_KEY ''300'') = Some 300"
    using T [where key = "''300''", THEN conjunct2, THEN conjunct1] n300 i300 by simp
  have c: "normalize_config_key ecodes_KEY ''300'' = (Some 300, Some ''k:300'')"
    using c0 d by (auto simp: normalize_config_key_def split: option.splits)
  have e: "normalize_config_key ecodes_KEY ''bogus'' = (None, None)"
    using T [where key = "''bogus''", THEN conjunct2, THEN conjunct2, THEN conjunct2] nb by blast
  have "lookup_mapping ecodes_KEY 30 (Some [(''bogus'', ''x''), (''a'', ''b'')]) =
        lookup_mapping ecodes_KEY 30 (Some (filter (\<lambda>(k, v). k \<noteq> ''bogus'') [(''bogus'', ''x''), (''a'', ''b'')]))"
    using T [where key = "''bogus''", THEN conjunct2, THEN conjunct2, THEN conjunct2] nb by blast
  then have f: "lookup_mapping ecodes_KEY 30 (Some [(''bogus'', ''x''), (''a'', ''b'')]) =
        lookup_mapping ecodes_KEY 30 (Some [(''a'', ''b'')])"
    by simp
  show ?thesis by (intro conjI a b c e f)
qed

subsection \<open>From a name to its code and back\<close>

lemma key_name_map_resolves:
  "list_all (\<lambda>(c, n).
       c \<in> set [KEY_RIGHTSHIFT, KEY_RIGHTCTRL, KEY_RIGHTALT, KEY_RIGHTMETA] \<or>
       (\<not> startswith (upper n) ''KEY_'' \<and> name_fallback n = Some c \<and>
        (map_of (map prod.swap ecodes_KEY) (''KEY_'' @ upper n) = Some c
         \<or> ''KEY_'' @ upper n \<in> set dotool_only_names)))
     key_name_map"
  by code_simp

text \<open>
  Claim C7 as stated fails. KEY_RIGHTSHIFT is code 54, whose dotool name \<open>shift\<close>
  resolves to the left shift key, code 42; \<open>capslock\<close> is code 58, which has no dotool
  name, and \<open>k:58\<close> resolves to nothing.
\<close>

theorem name_code_round_trip_counterexample:
  "name_to_keycode ecodes_KEY ''KEY_RIGHTSHIFT'' = Some 54
 \<and> keycode_to_dotool_name 54 = ''shift''
 \<and> name_to_keycode ecodes_KEY (keycode_to_dotool_name 54) = Some 42
 \<and> name_to_keycode ecodes_KEY ''capslock'' = Some 58
 \<and> keycode_to_dotool_name 58 = ''k:58''
 \<and> name_to_keycode ecodes_KEY (keycode_to_dotool_name 58) = None"
  by code_simp

text \<open>
  Claim C7, amended. For every name that \<open>name_to_keycode\<close> accepts with a code that has
  a dotool name in \<open>key_name_map\<close> and is not one of the right-hand modifiers
  (RIGHTSHIFT, RIGHTCTRL, RIGHTALT, RIGHTMETA), the dotool name of the code resolves to
  the same code.
\<close>

theorem name_code_round_trip:
  assumes ok: "ecodes_ok KEY"
      and acc: "name_to_keycode KEY N = Some c"
      and named: "map_of key_name_map c \<noteq> None"
      and left: "c \<notin> {KEY_RIGHTSHIFT, KEY_RIGHTCTRL, KEY_RIGHTALT, KEY_RIGHTMETA}"
  shows "name_to_keycode KEY (keycode_to_dotool_name c) = name_to_keycode KEY N"
proof -
  from named obtain n where n: "map_of key_name_map c = Some n" by blast
  then have "(c, n) \<in> set key_name_map" by (rule map_of_SomeD)
  with key_name_map_resolves left
  have p: "\<not> startswith (upper n) ''KEY_''" "name_fallback n = Some c"
       "map_of (map prod.swap ecodes_KEY) (''KEY_'' @ upper n) = Some c
         \<or> ''KEY_'' @ upper n \<in> set dotool_only_names"
    unfolding list_all_iff by auto
  have "keycode_to_dotool_name c = n" by (simp add: keycode_to_dotool_name_def n)
  with name_to_keycode_consistent [OF ok p] acc show ?thesis by simp
qed

theorem name_code_round_trip_witness:
  "name_to_keycode ecodes_KEY ''KEY_ESC'' = Some 1
 \<and> keycode_to_dotool_name 1 = ''escape''
 \<and> name_to_keycode ecodes_KEY (keycode_to_dotool_name 1) = Some 1"
proof -
  have acc: "name_to_keycode ecodes_KEY ''KEY_ESC'' = Some 1" by code_simp
  have named: "map_of key_name_map 1 \<noteq> None" by code_simp
  have left: "(1::int) \<notin> {KEY_RIGHTSHIFT, KEY_RIGHTCTRL, KEY_RIGHTALT, KEY_RIGHTMETA}" by simp
  have nm: "keycode_to_dotool_name 1 = ''escape''" by code_simp
  from name_code_round_trip [OF ecodes_ok_ecodes_KEY acc named left] acc nm
  show ?thesis by simp
qed

subsection \<open>Decimal code or name as configured key\<close>

text \<open>
  \<open>int\<close> reads back what \<open>str\<close> writes.
\<close>

lemma digit_val_digit_char: "d < 10 \<Longrightarrow> digit_val (digit_char d) = Some d"
proof -
  assume "d < 10"
  then have "d \<in> {0, 1, 2, 3, 4, 5, 6, 7, 8, 9}" by auto
  then show ?thesis by (auto simp: digit_val_def digit_char_def)
qed

lemma digit_char_plain:
  assumes "d < 10"
  shows "digit_char d \<noteq> CHR ''_''" "digit_char d \<noteq> CHR ''-''" "digit_char d \<noteq> CHR ''+''"
        "\<not> is_int_space (digit_char d)"
proof -
  from assms have "d \<in> {0, 1, 2, 3, 4, 5, 6, 7, 8, 9}" by auto
  then show "digit_char d \<noteq> CHR ''_''" "digit_char d \<noteq> CHR ''-''" "digit_char d \<noteq> CHR ''+''"
        "\<not> is_int_space (digit_char d)"
    by (auto simp: digit_char_def is_int_space_def)
qed

lemma parse_dec_snoc:
  assumes "list_all is_digit ds" and "d < 10"
  shows "parse_dec acc (ds @ [digit_char d]) = map_option (\<lambda>a. 10 * a + d) (parse_dec acc ds)"
  using assms
proof (induction ds arbitrary: acc)
  case Nil
  then show ?case by (simp add: digit_char_plain digit_val_digit_char)
next
  case (Cons c cs)
  from Cons.prems obtain e where e: "e < 10" "c = digit_char e" by (auto simp: is_digit_def)
  from Cons.prems have cs: "list_all is_digit cs" by simp
  show ?case
    using Cons.IH [OF cs \<open>d < 10\<close>, of "10 * acc + e"] e
    by (simp add: digit_char_plain digit_val_digit_char)
qed

lemma parse_nat_snoc:
  assumes "list_all is_digit ds" and "ds \<noteq> []" and "d < 10"
  shows "parse_nat (ds @ [digit_char d]) = map_option (\<lambda>a. 10 * a + d) (parse_nat ds)"
proof -
  from assms(2) obtain c cs where ds: "ds = c # cs" by (cases ds) auto
  with assms(1) obtain e where e: "e < 10" "c = digit_char e" and cs: "list_all is_digit cs"
    by (auto simp: is_digit_def)
  show ?thesis
    using parse_dec_snoc [OF cs assms(3), of e]
    by (simp add: ds parse_nat_def e digit_val_digit_char)
qed

lemma str_nat_digits: "list_all is_digit (str_nat n) \<and> str_nat n \<noteq> []"
proof (induction n rule: str_nat.induct)
  case (1 n)
  show ?case
  proof (cases "n < 10")
    case True
    then show ?thesis by (subst str_nat.simps, subst str_nat.simps) (auto simp: is_digit_def)
  next
    case False
    have "n mod 10 < 10" by simp
    then have "is_digit (digit_char (n mod 10))" unfolding is_digit_def by blast
    with False "1.IH" show ?thesis
      by (subst str_nat.simps, subst (2) str_nat.simps) simp
  qed
qed

lemma parse_nat_str_nat: "parse_nat (str_nat n) = Some n"
proof (induction n rule: str_nat.induct)
  case (1 n)
  show ?case
  proof (cases "n < 10")
    case True
    then show ?thesis
      by (subst str_nat.simps) (simp add: parse_nat_def digit_val_digit_char)
  next
    case False
    have m: "n mod 10 < 10" by simp
    from str_nat_digits [of "n div 10"]
    have d: "list_all is_digit (str_nat (n div 10))" "str_nat (n div 10) \<noteq> []" by simp_all
    have "parse_nat (str_nat (n div 10) @ [digit_char (n mod 10)])
            = map_option (\<lambda>a. 10 * a + n mod 10) (parse_nat (str_nat (n div 10)))"
      by (rule parse_nat_snoc [OF d m])
    also have "\<dots> = Some (10 * (n div 10) + n mod 10)"
      using "1.IH" [OF False] by simp
    also have "\<dots> = Some n" by simp
    finally show ?thesis using False by (subst str_nat.simps) simp
  qed
qed

lemma int_strip_no_space:
  assumes "s \<noteq> []" and "\<not> is_int_space (hd s)" and "\<not> is_int_space (last s)"
  shows "int_strip s = s"
proof -
  from assms(1,2) have a: "dropWhile is_int_space s = s" by (cases s) auto
  from assms(1,3) have b: "dropWhile is_int_space (rev s) = rev s"
    by (cases "rev s") (auto simp: hd_rev [symmetric] simp del: hd_rev)
  show ?thesis by (simp add: int_strip_def a b)
qed

lemma str_nat_ends:
  "\<exists>d < 10. hd (str_nat n) = digit_char d" "\<exists>d < 10. last (str_nat n) = digit_char d"
proof -
  from str_nat_digits [of n] have d: "list_all is_digit (str_nat n)" and ne: "str_nat n \<noteq> []"
    by simp_all
  from ne have "hd (str_nat n) \<in> set (str_nat n)" "last (str_nat n) \<in> set (str_nat n)" by simp_all
  with d have "is_digit (hd (str_nat n))" "is_digit (last (str_nat n))"
    by (auto simp: list_all_iff)
  then show "\<exists>d < 10. hd (str_nat n) = digit_char d" "\<exists>d < 10. last (str_nat n) = digit_char d"
    by (auto simp: is_digit_def)
qed

lemma py_int_py_str: "py_int (py_str i) = Some i"
proof (cases "i < 0")
  case False
  let ?s = "str_nat (nat i)"
  from str_nat_digits [of "nat i"] have ne: "?s \<noteq> []" by simp
  from str_nat_ends [of "nat i"] obtain d e where
    d: "d < 10" "hd ?s = digit_char d" and e: "e < 10" "last ?s = digit_char e" by blast
  have st: "int_strip ?s = ?s"
    by (rule int_strip_no_space [OF ne]) (simp_all add: d e digit_char_plain)
  from ne obtain c cs where s: "?s = c # cs" by (cases ?s) auto
  with d have c: "c = digit_char d" by simp
  have "py_int ?s = map_option int (parse_nat ?s)"
    unfolding py_int_def st using d(1) by (simp add: s c digit_char_plain)
  with False show ?thesis by (simp add: py_str_def parse_nat_str_nat)
next
  case True
  let ?s = "str_nat (nat (- i))"
  from str_nat_digits [of "nat (- i)"] have ne: "?s \<noteq> []" by simp
  from str_nat_ends [of "nat (- i)"] obtain e where e: "e < 10" "last ?s = digit_char e" by blast
  have "\<not> is_int_space CHR ''-''" by (simp add: is_int_space_def)
  then have st: "int_strip (CHR ''-'' # ?s) = CHR ''-'' # ?s"
    by (intro int_strip_no_space) (simp_all add: ne e digit_char_plain)
  have "py_int (CHR ''-'' # ?s) = map_option (\<lambda>n. - int n) (parse_nat ?s)"
    unfolding py_int_def st by simp
  with True show ?thesis by (simp add: py_str_def parse_nat_str_nat)
qed

text \<open>
  When all keys of a table that stand for the pressed code are one and the same string,
  a lookup is a lookup in the table keyed by normalized code; this table does not change
  when a key is written in another way.
\<close>

lemma scan_skip:
  "\<not> Q a \<Longrightarrow>
   (case find Q xs of None \<Rightarrow> None | Some k \<Rightarrow> (if k = a then X else f k)) =
   (case find Q xs of None \<Rightarrow> None | Some k \<Rightarrow> f k)"
  by (induction xs) auto

lemma scan_lookup_by_code:
  "scan_lookup KEY key_code t = map_of (table_by_code KEY t) (Some key_code)"
proof (induction t)
  case Nil
  show ?case by (simp add: scan_lookup_def table_by_code_def)
next
  case (Cons e t)
  obtain a b where e: "e = (a, b)" by (cases e)
  let ?Q = "\<lambda>config_key. fst (normalize_config_key KEY config_key) = Some key_code"
  show ?case
  proof (cases "?Q a")
    case True
    then show ?thesis by (simp add: scan_lookup_def table_by_code_def e)
  next
    case False
    have "scan_lookup KEY key_code (e # t) =
            (case find ?Q (map fst t) of None \<Rightarrow> None
             | Some k \<Rightarrow> (if k = a then Some b else map_of t k))"
      using False by (simp add: scan_lookup_def e cong: option.case_cong)
    also have "\<dots> = (case find ?Q (map fst t) of None \<Rightarrow> None | Some k \<Rightarrow> map_of t k)"
      using False by (rule scan_skip)
    also have "\<dots> = scan_lookup KEY key_code t" by (simp only: scan_lookup_def)
    also have "\<dots> = map_of (table_by_code KEY t) (Some key_code)" by (rule Cons.IH)
    also have "\<dots> = map_of (table_by_code KEY (e # t)) (Some key_code)"
      using False by (simp add: table_by_code_def e)
    finally show ?thesis .
  qed
qed

lemma map_of_only_key:
  assumes "\<forall>k \<in> set (map fst t). k = key \<or> fst (normalize_config_key KEY k) \<noteq> Some key_code"
      and "k \<in> set (map fst t)"
      and "fst (normalize_config_key KEY k) = Some key_code"
  shows "map_of t k = map_of (table_by_code KEY t) (Some key_code)"
  using assms
proof (induction t)
  case Nil
  then show ?case by simp
next
  case (Cons e t)
  obtain a b where e: "e = (a, b)" by (cases e)
  show ?case
  proof (cases "fst (normalize_config_key KEY a) = Some key_code")
    case True
    with Cons.prems have "a = key" "k = key" by (auto simp: e)
    with True show ?thesis by (simp add: table_by_code_def e)
  next
    case False
    with Cons.prems have ka: "k \<noteq> a" and kt: "k \<in> set (map fst t)" by (auto simp: e)
    from Cons.prems(1)
    have "\<forall>k \<in> set (map fst t). k = key \<or> fst (normalize_config_key KEY k) \<noteq> Some key_code"
      by simp
    from Cons.IH [OF this kt Cons.prems(3)] ka False show ?thesis
      by (simp add: table_by_code_def e)
  qed
qed

lemma lookup_mapping_by_code:
  assumes "\<forall>k \<in> set (map fst t). k = key \<or> fst (normalize_config_key KEY k) \<noteq> Some key_code"
  shows "lookup_mapping KEY key_code (Some t) = map_of (table_by_code KEY t) (Some key_code)"
proof (cases "find (\<lambda>lookup_key. lookup_key \<in> set (map fst t) \<and>
            fst (normalize_config_key KEY lookup_key) = Some key_code) (lookup_keys key_code)")
  case None
  then have "direct_lookup KEY key_code t = None"
    unfolding direct_lookup_def by (simp only: option.case)
  then show ?thesis by (simp add: lookup_mapping_def scan_lookup_by_code)
next
  case (Some lk)
  have lk: "lk \<in> set (map fst t) \<and> fst (normalize_config_key KEY lk) = Some key_code"
    using find_Some_holds [OF Some] by (rule conjunct1)
  have d: "direct_lookup KEY key_code t = map_of t lk"
    unfolding direct_lookup_def by (simp only: Some option.case)
  from map_of_key_Some [OF lk [THEN conjunct1]] obtain v where v: "map_of t lk = Some v" ..
  have "map_of t lk = map_of (table_by_code KEY t) (Some key_code)"
    by (rule map_of_only_key [OF assms lk [THEN conjunct1] lk [THEN conjunct2]])
  with d v show ?thesis by (simp add: lookup_mapping_def)
qed

lemma table_by_code_rekey:
  assumes "fst (normalize_config_key KEY old) = fst (normalize_config_key KEY new)"
  shows "table_by_code KEY (rekey old new t) = table_by_code KEY t"
  using assms by (induction t) (auto simp: table_by_code_def rekey_def)

lemma lookup_mapping_rekey:
  assumes old: "fst (normalize_config_key KEY old) = Some key_code"
      and new: "fst (normalize_config_key KEY new) = Some key_code"
      and only: "\<forall>k \<in> set (map fst t). k = old \<or> fst (normalize_config_key KEY k) \<noteq> Some key_code"
  shows "lookup_mapping KEY key_code (Some (rekey old new t)) = lookup_mapping KEY key_code (Some t)"
proof -
  have "\<forall>k \<in> set (map fst (rekey old new t)).
          k = new \<or> fst (normalize_config_key KEY k) \<noteq> Some key_code"
    using only by (auto simp: rekey_def split: if_splits)
  from lookup_mapping_by_code [OF this] lookup_mapping_by_code [OF only]
    table_by_code_rekey [of KEY old new t] old new
  show ?thesis by simp
qed

lemma lookup_mapping_rekey_option:
  assumes old: "fst (normalize_config_key KEY old) = Some key_code"
      and new: "fst (normalize_config_key KEY new) = Some key_code"
      and only: "\<And>t. tbl = Some t \<Longrightarrow>
                  \<forall>k \<in> set (map fst t). k = old \<or> fst (normalize_config_key KEY k) \<noteq> Some key_code"
  shows "lookup_mapping KEY key_code (map_option (rekey old new) tbl) = lookup_mapping KEY key_code tbl"
proof (cases tbl)
  case None
  then show ?thesis by simp
next
  case (Some t)
  from lookup_mapping_rekey [OF old new only [OF Some]] Some show ?thesis by simp
qed

lemma find_window_key_fst:
  "map fst ms' = map fst ms \<Longrightarrow> find_window_key w ms' = find_window_key w ms"
  by (simp only: find_window_key_def)

lemma map_of_map_snd:
  "map_of (map (\<lambda>(w, t). (w, f t)) ms) k = map_option f (map_of ms k)"
  by (induction ms) auto

lemma window_table_rekey:
  "window_table (map_option (map (\<lambda>(w, t). (w, rekey old new t))) maps) window =
   map_option (rekey old new) (window_table maps window)"
proof (cases maps)
  case None
  then show ?thesis by (simp add: window_table_def split: option.split)
next
  case (Some ms)
  have f: "map fst (map (\<lambda>(w, t). (w, rekey old new t)) ms) = map fst ms"
    by (induction ms) auto
  show ?thesis
    by (simp add: Some window_table_def find_window_key_fst [OF f] map_of_map_snd
          split: option.split)
qed

lemma window_table_member:
  "window_table (Some ms) window = Some t \<Longrightarrow> t \<in> set (map snd ms)"
proof -
  assume "window_table (Some ms) window = Some t"
  then obtain wk where "map_of ms wk = Some t"
    by (auto simp: window_table_def split: option.splits if_splits)
  then have "(wk, t) \<in> set ms" by (rule map_of_SomeD)
  then show ?thesis by force
qed

lemma only_key_tables:
  assumes "only_key KEY key_code key cfg" and "t \<in> set (all_tables cfg)"
  shows "\<forall>k \<in> set (map fst t). k = key \<or> fst (normalize_config_key KEY k) \<noteq> Some key_code"
  using assms unfolding only_key_def list_all_iff by blast

lemma window_table_in_tables:
  assumes "window_table maps window = Some t"
  shows "maps = Some ms \<Longrightarrow> t \<in> set (map snd ms)"
  using assms window_table_member by simp

lemma window_table_None: "window_table None window = None"
  by (simp add: window_table_def split: option.split)

lemma normalize_decimal:
  assumes "name_to_keycode KEY (py_str key_code) = None"
  shows "fst (normalize_config_key KEY (py_str key_code)) = Some key_code"
  using assms by (simp add: normalize_config_key_def py_int_py_str)

text \<open>
  Claim C8 as stated fails for the keys whose decimal code is itself a key name. Key
  KEY_1 has code 2; the entry keyed \<open>2\<close> stands for KEY_2 and leaves key code 2
  unmapped, while the entry keyed \<open>1\<close> remaps it.
\<close>

theorem representation_independence_counterexample:
  "py_str 2 = ''2''
 \<and> name_to_keycode ecodes_KEY ''1'' = Some 2
 \<and> get_mapping ecodes_KEY
      \<lparr>window_command_mappings = None, command_mappings = None, window_mappings = None,
       global_mappings = Some [(''2'', ''a'')]\<rparr> ''uinput'' None 2 = Inr None
 \<and> get_mapping ecodes_KEY
      \<lparr>window_command_mappings = None, command_mappings = None, window_mappings = None,
       global_mappings = Some [(''1'', ''a'')]\<rparr> ''uinput'' None 2 = Inr (Some (KeyCode 30))"
  by code_simp

text \<open>
  Claim C8, amended. For a key code whose decimal string is not itself a key name, that
  string and every name of the key normalize to the code, and replacing the decimal
  string by the name as key of the configuration tables leaves the result of
  \<open>get_mapping\<close> for that key unchanged, for every window and output method, provided no
  other key of the tables stands for the same code.
\<close>

theorem representation_independence:
  assumes dec: "name_to_keycode KEY (py_str key_code) = None"
      and nam: "name_to_keycode KEY name = Some key_code"
      and only: "only_key KEY key_code (py_str key_code) cfg"
  shows "fst (normalize_config_key KEY (py_str key_code)) = Some key_code
       \<and> fst (normalize_config_key KEY name) = Some key_code
       \<and> get_mapping KEY (rekey_config (py_str key_code) name cfg) om window key_code =
         get_mapping KEY cfg om window key_code"
proof -
  let ?old = "py_str key_code"
  let ?cfg' = "rekey_config ?old name cfg"
  have old: "fst (normalize_config_key KEY ?old) = Some key_code"
    by (rule normalize_decimal [OF dec])
  have new: "fst (normalize_config_key KEY name) = Some key_code"
    using nam by (simp add: normalize_config_key_def)
  note tabs = only_key_tables [OF only]
  have wc_in: "t \<in> set (all_tables cfg)"
    if "window_table (window_command_mappings cfg) window = Some t" for t
  proof (cases "window_command_mappings cfg")
    case None
    with that show ?thesis by (simp add: window_table_None)
  next
    case (Some ms)
    from window_table_in_tables [OF that Some] Some show ?thesis
      by (simp add: all_tables_def)
  qed
  have wk_in: "t \<in> set (all_tables cfg)"
    if "window_table (window_mappings cfg) window = Some t" for t
  proof (cases "window_mappings cfg")
    case None
    with that show ?thesis by (simp add: window_table_None)
  next
    case (Some ms)
    from window_table_in_tables [OF that Some] Some show ?thesis
      by (simp add: all_tables_def)
  qed
  have gc_in: "t \<in> set (all_tables cfg)" if "command_mappings cfg = Some t" for t
    using that by (simp add: all_tables_def)
  have gk_in: "t \<in> set (all_tables cfg)" if "global_mappings cfg = Some t" for t
    using that by (simp add: all_tables_def)
  have sel: "window_command_mappings ?cfg' =
               map_option (map (\<lambda>(w, t). (w, rekey ?old name t))) (window_command_mappings cfg)"
            "command_mappings ?cfg' = map_option (rekey ?old name) (command_mappings cfg)"
            "window_mappings ?cfg' =
               map_option (map (\<lambda>(w, t). (w, rekey ?old name t))) (window_mappings cfg)"
            "global_mappings ?cfg' = map_option (rekey ?old name) (global_mappings cfg)"
    by (simp_all add: rekey_config_def)
  have l1: "lookup_mapping KEY key_code (window_table (window_command_mappings ?cfg') window) =
            lookup_mapping KEY key_code (window_table (window_command_mappings cfg) window)"
    unfolding sel window_table_rekey
    by (rule lookup_mapping_rekey_option [OF old new]) (rule tabs, rule wc_in)
  have l2: "lookup_mapping KEY key_code (command_mappings ?cfg') =
            lookup_mapping KEY key_code (command_mappings cfg)"
    unfolding sel
    by (rule lookup_mapping_rekey_option [OF old new]) (rule tabs, rule gc_in)
  have l3: "lookup_mapping KEY key_code (window_table (window_mappings ?cfg') window) =
            lookup_mapping KEY key_code (window_table (window_mappings cfg) window)"
    unfolding sel window_table_rekey
    by (rule lookup_mapping_rekey_option [OF old new]) (rule tabs, rule wk_in)
  have l4: "lookup_mapping KEY key_code (global_mappings ?cfg') =
            lookup_mapping KEY key_code (global_mappings cfg)"
    unfolding sel
    by (rule lookup_mapping_rekey_option [OF old new]) (rule tabs, rule gk_in)
  have g: "get_mapping KEY ?cfg' om window key_code = get_mapping KEY cfg om window key_code"
    unfolding get_mapping_def l1 l2 l3 l4 ..
  show ?thesis by (intro conjI old new g)
qed

theorem representation_independence_witness:
  "py_str 58 = ''58''
 \<and> name_to_keycode ecodes_KEY ''capslock'' = Some 58
 \<and> global_mappings (rekey_config ''58'' ''capslock'' example_config) =
     Some [(''1'', ''a''), (''2'', ''bogus''), (''c'', ''cmd: foo ''), (''z'', ''q''), (''capslock'', ''esc'')]
 \<and> get_mapping ecodes_KEY (rekey_config ''58'' ''capslock'' example_config) ''uinput'' None 58 =
     Inr (Some (KeyCode 1))
 \<and> get_mapping ecodes_KEY example_config ''uinput'' None 58 = Inr (Some (KeyCode 1))"
proof -
  have s: "py_str 58 = ''58''" by code_simp
  have dec: "name_to_keycode ecodes_KEY (py_str 58) = None" by code_simp
  have nam: "name_to_keycode ecodes_KEY ''capslock'' = Some 58" by code_simp
  have only: "only_key ecodes_KEY 58 (py_str 58) example_config" by code_simp
  have r: "global_mappings (rekey_config ''58'' ''capslock'' example_config) =
     Some [(''1'', ''a''), (''2'', ''bogus''), (''c'', ''cmd: foo ''), (''z'', ''q''), (''capslock'', ''esc'')]"
    by (simp add: rekey_config_def rekey_def example_config_def)
  have g: "get_mapping ecodes_KEY example_config ''uinput'' None 58 = Inr (Some (KeyCode 1))"
    by code_simp
  from representation_independence [OF dec nam only, of "''uinput''" None]
  have "get_mapping ecodes_KEY (rekey_config ''58'' ''capslock'' example_config) ''uinput'' None 58 =
        get_mapping ecodes_KEY example_config ''uinput'' None 58"
    by (simp add: s)
  with g s nam r show ?thesis by simp
qed

end
